theory Spec2Isabelle
  imports Main "HOL-Library.Word"
begin

text \<open>
  The certificate provider of Flipper: \<^verbatim>\<open>desktop/app/src/server/utils/CertificateProvider.tsx\<close>
  and its older form \<^verbatim>\<open>desktop/app/src/utils/CertificateProvider.tsx\<close>. Every method is a
  function of the state it runs in; what it calls outside the class (file system,
  OpenSSL, device bridges, network) is a parameter, and every such call is written to a
  trace. A rejected promise and a thrown exception are the left summand of the result.
\<close>

section \<open>JavaScript strings\<close>

text \<open>
  A JavaScript string is a sequence of UTF-16 code units. The regular expressions of
  \<^verbatim>\<open>CertificateProvider.tsx\<close> carry no \<^verbatim>\<open>u\<close>, \<^verbatim>\<open>i\<close> or \<^verbatim>\<open>m\<close> flag, so they and
  \<^verbatim>\<open>String.prototype.trim\<close> work code unit by code unit.
\<close>

type_synonym jschar = "16 word"
type_synonym jsstring = "jschar list"

definition cu :: "char \<Rightarrow> jschar" where
  "cu c = of_nat (of_char c)"

definition js :: "string \<Rightarrow> jsstring" where
  "js s = map cu s"

text \<open>ECMAScript \<^verbatim>\<open>LineTerminator\<close>: LF, CR, U+2028, U+2029.\<close>

definition isLineTerminator :: "jschar \<Rightarrow> bool" where
  "isLineTerminator c = (c = 0x0A \<or> c = 0x0D \<or> c = 0x2028 \<or> c = 0x2029)"

text \<open>
  ECMAScript \<^verbatim>\<open>WhiteSpace\<close> or \<^verbatim>\<open>LineTerminator\<close>: what \<^verbatim>\<open>trim()\<close> strips and what
  \<^verbatim>\<open>\s\<close> matches (TAB, VT, FF, SP, NBSP, the Unicode space separators, BOM).
\<close>

definition isWhiteSpace :: "jschar \<Rightarrow> bool" where
  "isWhiteSpace c =
     (c = 0x09 \<or> c = 0x0B \<or> c = 0x0C \<or> c = 0x20 \<or> c = 0xA0 \<or> c = 0x1680
      \<or> (0x2000 \<le> c \<and> c \<le> 0x200A) \<or> c = 0x202F \<or> c = 0x205F \<or> c = 0x3000
      \<or> c = 0xFEFF \<or> isLineTerminator c)"

text \<open>\<^verbatim>\<open>\w\<close> without the \<^verbatim>\<open>u\<close> and \<^verbatim>\<open>i\<close> flags: \<^verbatim>\<open>[A-Za-z0-9_]\<close>.\<close>

definition isWordChar :: "jschar \<Rightarrow> bool" where
  "isWordChar c =
     ((0x41 \<le> c \<and> c \<le> 0x5A) \<or> (0x61 \<le> c \<and> c \<le> 0x7A) \<or> (0x30 \<le> c \<and> c \<le> 0x39)
      \<or> c = 0x5F)"

text \<open>\<^verbatim>\<open>String.prototype.trim\<close>: strip white space from the start, then from the end.\<close>

definition trim :: "jsstring \<Rightarrow> jsstring" where
  "trim s = rev (dropWhile isWhiteSpace (rev (dropWhile isWhiteSpace s)))"

text \<open>
  \<^verbatim>\<open>santitizeString(csrString) = csrString.replace(/\r/g, '').trim()\<close>
  (the same in both providers).
\<close>

definition santitizeString :: "jsstring \<Rightarrow> jsstring" where
  "santitizeString csrString = trim (filter (\<lambda>c. c \<noteq> 0x0D) csrString)"

section \<open>The regular expressions\<close>

text \<open>
  A bracket class is a list of atoms. \<^verbatim>\<open>allowedAppNameRegex\<close> is \<^verbatim>\<open>/^[\w.-]+$/\<close> in
  \<^verbatim>\<open>server/utils/CertificateProvider.tsx\<close> and \<^verbatim>\<open>/^[\w._-]+$/\<close> in
  \<^verbatim>\<open>utils/CertificateProvider.tsx\<close>; in both the final \<^verbatim>\<open>-\<close> stands before \<^verbatim>\<open>]\<close> and
  is a literal.
\<close>

datatype class_atom = WordClass | Lit jschar

fun atom_matches :: "class_atom \<Rightarrow> jschar \<Rightarrow> bool" where
  "atom_matches WordClass c = isWordChar c"
| "atom_matches (Lit l) c = (c = l)"

definition class_matches :: "class_atom list \<Rightarrow> jschar \<Rightarrow> bool" where
  "class_matches atoms c = list_ex (\<lambda>a. atom_matches a c) atoms"

text \<open>
  \<^verbatim>\<open>/^[atoms]+$/\<close> without the \<^verbatim>\<open>m\<close> flag: the whole input is one or more characters
  of the class (\<^verbatim>\<open>$\<close> is the end of the input only).
\<close>

definition matches_class_plus :: "class_atom list \<Rightarrow> jsstring \<Rightarrow> bool" where
  "matches_class_plus atoms s = (s \<noteq> [] \<and> list_all (class_matches atoms) s)"

definition allowedAppNameRegex :: "class_atom list" where
  "allowedAppNameRegex = [WordClass, Lit (cu CHR ''.''), Lit (cu CHR ''-'')]"

definition allowedAppNameRegex_legacy :: "class_atom list" where
  "allowedAppNameRegex_legacy =
     [WordClass, Lit (cu CHR ''.''), Lit (cu CHR ''_''), Lit (cu CHR ''-'')]"

text \<open>
  \<^verbatim>\<open>RegExp.prototype.exec\<close> and \<^verbatim>\<open>String.prototype.match\<close> without the \<^verbatim>\<open>g\<close> flag return
  the match at the leftmost start index that has one. \<open>at\<close> gives the captured group
  for a match that starts at the head of its argument.
\<close>

fun exec_first :: "(jsstring \<Rightarrow> 'a option) \<Rightarrow> jsstring \<Rightarrow> 'a option" where
  "exec_first at [] = at []"
| "exec_first at (c # s) =
     (case at (c # s) of Some r \<Rightarrow> Some r | None \<Rightarrow> exec_first at s)"

definition starts_with :: "jsstring \<Rightarrow> jsstring \<Rightarrow> bool" where
  "starts_with p s = (take (length p) s = p)"

text \<open>
  \<^verbatim>\<open>x509SubjectCNRegex = /[=,]\s*CN=([^,]*)(,.*)?$/\<close>, group 1. After the separator the
  greedy \<^verbatim>\<open>\s*\<close> takes the whole run of white space (\<^verbatim>\<open>C\<close> is none); \<^verbatim>\<open>[^,]*\<close> takes
  everything up to the next comma, line terminators included; what follows is either
  the end of the input, or a comma and a rest that \<^verbatim>\<open>.*\<close> can cross up to the end of
  the input, that is a rest without line terminator. Backtracking \<^verbatim>\<open>[^,]*\<close> cannot
  help: the character after a shorter run is no comma and not the end.
\<close>

definition x509SubjectCN_at :: "jsstring \<Rightarrow> jsstring option" where
  "x509SubjectCN_at s =
     (case s of
        [] \<Rightarrow> None
      | c # s0 \<Rightarrow>
          if c = cu CHR ''='' \<or> c = cu CHR '','' then
            (let s1 = dropWhile isWhiteSpace s0 in
             if starts_with (js ''CN='') s1 then
               (let s2 = drop 3 s1;
                    cn = takeWhile (\<lambda>x. x \<noteq> cu CHR '','') s2;
                    s3 = dropWhile (\<lambda>x. x \<noteq> cu CHR '','') s2
                in if s3 = [] \<or> list_all (\<lambda>x. \<not> isLineTerminator x) (tl s3)
                   then Some cn else None)
             else None)
          else None)"

definition x509SubjectCNRegex :: "jsstring \<Rightarrow> jsstring option" where
  "x509SubjectCNRegex s = exec_first x509SubjectCN_at s"

text \<open>
  \<^verbatim>\<open>/Application\/[^/]+\/(.*)/\<close>, group 1: \<^verbatim>\<open>Application/\<close>, a non-empty segment
  without slash, a slash, and the rest of the line.
\<close>

definition appContainer_at :: "jsstring \<Rightarrow> jsstring option" where
  "appContainer_at s =
     (if starts_with (js ''Application/'') s then
        (let r = drop 12 s;
             seg = takeWhile (\<lambda>x. x \<noteq> cu CHR ''/'') r;
             rest = dropWhile (\<lambda>x. x \<noteq> cu CHR ''/'') r
         in if seg \<noteq> [] \<and> rest \<noteq> []
            then Some (takeWhile (\<lambda>x. \<not> isLineTerminator x) (tl rest)) else None)
      else None)"

text \<open>\<^verbatim>\<open>/\/Devices\/([^/]+)\//\<close>, group 1: the simulator id in a container path.\<close>

definition simulatorId_at :: "jsstring \<Rightarrow> jsstring option" where
  "simulatorId_at s =
     (if starts_with (js ''/Devices/'') s then
        (let r = drop 9 s;
             seg = takeWhile (\<lambda>x. x \<noteq> cu CHR ''/'') r;
             rest = dropWhile (\<lambda>x. x \<noteq> cu CHR ''/'') r
         in if seg \<noteq> [] \<and> rest \<noteq> [] then Some seg else None)
      else None)"

text \<open>
  \<^verbatim>\<open>/[^:]+: OK/\<close> as a search: some character other than a colon stands directly
  before \<^verbatim>\<open>: OK\<close>.
\<close>

fun verifiedRegex :: "jsstring \<Rightarrow> bool" where
  "verifiedRegex [] = False"
| "verifiedRegex (c # s) =
     ((c \<noteq> cu CHR '':'' \<and> starts_with (js '': OK'') s) \<or> verifiedRegex s)"

text \<open>\<^verbatim>\<open>String.prototype.split\<close> with a one-character separator.\<close>

fun split_on :: "jschar \<Rightarrow> jsstring \<Rightarrow> jsstring list" where
  "split_on sep [] = [[]]"
| "split_on sep (c # s) =
     (if c = sep then [] # split_on sep s
      else (case split_on sep s of [] \<Rightarrow> [[c]] | p # ps \<Rightarrow> (c # p) # ps))"

section \<open>Errors, collaborators and effects\<close>

text \<open>
  One constructor for each \<^verbatim>\<open>throw\<close> and \<^verbatim>\<open>Promise.reject\<close> of the two providers, with
  the values interpolated into the message; \<open>External\<close> is the rejection of a
  collaborator (file system, toolkit, device bridge, network), \<open>TypeError\<close> the
  \<^verbatim>\<open>undefined.trim()\<close> of \<^verbatim>\<open>checkCertIsValid\<close>, \<open>URIError\<close> that of \<^verbatim>\<open>encodeURI\<close>.
\<close>

datatype error =
    EmptyCsr jsstring
  | AdbNotInitialised
  | AndroidNotEnabled
  | CertsNotAvailableInTest
  | PathDidNotMatch jsstring
  | FailedToWriteTemp jsstring error
  | UnsupportedOS jsstring
  | InvalidAppDirectory jsstring jsstring error
  | NoAndroidDevices
  | NoIOSDevices
  | NoMatchingDevice jsstring
  | ConflictInTempDir
  | FailedToPullCsr
  | CannotExtractCN jsstring
  | DisallowedAppName jsstring
  | DoesNotExist jsstring
  | CannotParseExpiry
  | CertExpired
  | NotIssuedByCA
  | OpenSSLNotInstalled
  | TypeError
  | URIError
  | External jsstring

datatype medium = FS_ACCESS | WWW | NONE

datatype adb_client = AdbClient

text \<open>The option objects handed to \<^verbatim>\<open>openssl(command, options)\<close>, one per call site.\<close>

datatype openssl_cmd =
    X509_sign jsstring jsstring jsstring jsstring
  | X509_sign_out jsstring jsstring jsstring jsstring jsstring
  | Req_subject jsstring
  | X509_checkend nat jsstring
  | X509_enddate jsstring
  | Verify jsstring jsstring
  | Genrsa jsstring
  | Req_new_x509 jsstring jsstring jsstring
  | Req_new jsstring jsstring jsstring

datatype level = Debug | Info | Warn | Err

datatype logarg = Text jsstring | Thrown error

text \<open>Every call that leaves the provider, with the arguments the claims speak about.\<close>

datatype request =
    FsPathExists jsstring
  | FsMkdir jsstring
  | FsWriteFile jsstring jsstring
  | FsReadFile jsstring
  | FsReaddir jsstring
  | FsUnlink jsstring
  | TmpDir
  | TmpFile
  | Openssl openssl_cmd
  | OpensslInstalled
  | ListDevices
  | AndroidPush jsstring jsstring jsstring jsstring
  | AndroidPull jsstring jsstring jsstring
  | IosTargets jsstring bool
  | IosTargets0
  | IosPush jsstring jsstring jsstring jsstring jsstring
  | IosPull jsstring jsstring jsstring jsstring jsstring
  | Uuid
  | DateNow
  | ZipDirectory jsstring jsstring
  | GraphPost nat jsstring jsstring jsstring
  | ReportPlatform jsstring

datatype event =
    Call request bool
  | Console level "logarg list"
  | ServerEmit error

text \<open>
  The state is the world outside the provider, of any type \<open>'w\<close>, and the trace of the
  calls made so far: \<open>Call r True\<close> is a call that resolved, \<open>Call r False\<close> one that
  rejected.
\<close>

record 'w state =
  trace :: "event list"
  ext :: 'w

type_synonym ('w, 'a) io = "'w state \<Rightarrow> (error + 'a) \<times> 'w state"

text \<open>
  The collaborators of \<^verbatim>\<open>CertificateProvider.tsx\<close>, none of them among the sources:
  \<^verbatim>\<open>fs-extra\<close>, \<^verbatim>\<open>tmp\<close>, \<^verbatim>\<open>path\<close>, \<^verbatim>\<open>Date\<close>, \<^verbatim>\<open>uuid\<close>, \<^verbatim>\<open>archiver\<close>, the \<^verbatim>\<open>openssl\<close> wrapper,
  \<^verbatim>\<open>adbkit\<close>, \<^verbatim>\<open>androidContainerUtility\<close>, \<^verbatim>\<open>iOSContainerUtility\<close>, and
  \<^verbatim>\<open>timeout(ms, internGraphPOSTAPIRequest(endpoint, {certificate_zip, device_id}), message)\<close>.
  Each is a parameter: a function of the world that answers and returns the new world.
  \<open>iosUtil_targets0\<close> is the \<^verbatim>\<open>iosUtil.targets()\<close> of \<^verbatim>\<open>utils/CertificateProvider.tsx\<close>, which
  takes no argument.
  \<^verbatim>\<open>fs.pathExists\<close>, \<^verbatim>\<open>uuid\<close> and \<^verbatim>\<open>Date.now\<close> do not reject; \<^verbatim>\<open>Date.parse\<close> answers
  \<open>None\<close> for \<^verbatim>\<open>NaN\<close> and milliseconds otherwise. \<open>settled_first\<close> is the order in
  which concurrent rejections settle, see \<open>promise_all\<close>.
\<close>

record 'w env =
  getFilePath :: "jsstring \<Rightarrow> jsstring"
  path_resolve :: "jsstring \<Rightarrow> jsstring \<Rightarrow> jsstring"
  path_join :: "jsstring \<Rightarrow> jsstring \<Rightarrow> jsstring"
  date_parse :: "jsstring \<Rightarrow> int option"
  settled_first :: "error list \<Rightarrow> nat"
  date_now :: "'w \<Rightarrow> int \<times> 'w"
  uuid :: "'w \<Rightarrow> jsstring \<times> 'w"
  fs_pathExists :: "jsstring \<Rightarrow> 'w \<Rightarrow> bool \<times> 'w"
  fs_mkdir :: "jsstring \<Rightarrow> 'w \<Rightarrow> (error + unit) \<times> 'w"
  fs_writeFile :: "jsstring \<Rightarrow> jsstring \<Rightarrow> 'w \<Rightarrow> (error + unit) \<times> 'w"
  fs_readFile :: "jsstring \<Rightarrow> 'w \<Rightarrow> (error + jsstring) \<times> 'w"
  fs_readdir :: "jsstring \<Rightarrow> 'w \<Rightarrow> (error + jsstring list) \<times> 'w"
  fs_unlink :: "jsstring \<Rightarrow> 'w \<Rightarrow> (error + unit) \<times> 'w"
  tmp_dir :: "'w \<Rightarrow> (error + jsstring) \<times> 'w"
  tmp_file :: "'w \<Rightarrow> (error + jsstring) \<times> 'w"
  openssl :: "openssl_cmd \<Rightarrow> 'w \<Rightarrow> (error + jsstring) \<times> 'w"
  opensslInstalled :: "'w \<Rightarrow> bool \<times> 'w"
  listDevices :: "adb_client \<Rightarrow> 'w \<Rightarrow> (error + jsstring list) \<times> 'w"
  androidUtil_push ::
    "adb_client \<Rightarrow> jsstring \<Rightarrow> jsstring \<Rightarrow> jsstring \<Rightarrow> jsstring \<Rightarrow> 'w \<Rightarrow> (error + unit) \<times> 'w"
  androidUtil_pull ::
    "adb_client \<Rightarrow> jsstring \<Rightarrow> jsstring \<Rightarrow> jsstring \<Rightarrow> 'w \<Rightarrow> (error + jsstring) \<times> 'w"
  iosUtil_targets :: "jsstring \<Rightarrow> bool \<Rightarrow> 'w \<Rightarrow> (error + jsstring list) \<times> 'w"
  iosUtil_targets0 :: "'w \<Rightarrow> (error + jsstring list) \<times> 'w"
  iosUtil_push ::
    "jsstring \<Rightarrow> jsstring \<Rightarrow> jsstring \<Rightarrow> jsstring \<Rightarrow> jsstring \<Rightarrow> 'w \<Rightarrow> (error + unit) \<times> 'w"
  iosUtil_pull ::
    "jsstring \<Rightarrow> jsstring \<Rightarrow> jsstring \<Rightarrow> jsstring \<Rightarrow> jsstring \<Rightarrow> 'w \<Rightarrow> (error + unit) \<times> 'w"
  zip_directory :: "jsstring \<Rightarrow> jsstring \<Rightarrow> 'w \<Rightarrow> (error + jsstring) \<times> 'w"
  graph_post :: "nat \<Rightarrow> jsstring \<Rightarrow> jsstring \<Rightarrow> jsstring \<Rightarrow> 'w \<Rightarrow> (error + unit) \<times> 'w"

subsection \<open>Promises as state passing\<close>

definition io_return :: "'a \<Rightarrow> ('w, 'a) io" where
  "io_return x s = (Inr x, s)"

definition io_throw :: "error \<Rightarrow> ('w, 'a) io" where
  "io_throw e s = (Inl e, s)"

text \<open>\<^verbatim>\<open>await m\<close> followed by \<open>f\<close>, or \<^verbatim>\<open>m.then(f)\<close>: a rejection skips \<open>f\<close>.\<close>

definition io_bind :: "('w, 'a) io \<Rightarrow> ('a \<Rightarrow> ('w, 'b) io) \<Rightarrow> ('w, 'b) io" where
  "io_bind m f s = (case m s of (Inl e, s') \<Rightarrow> (Inl e, s') | (Inr x, s') \<Rightarrow> f x s')"

text \<open>\<^verbatim>\<open>try { m } catch (e) { h }\<close>, or \<^verbatim>\<open>m.catch(h)\<close>.\<close>

definition io_catch :: "('w, 'a) io \<Rightarrow> (error \<Rightarrow> ('w, 'a) io) \<Rightarrow> ('w, 'a) io" where
  "io_catch m h s = (case m s of (Inl e, s') \<Rightarrow> h e s' | (Inr x, s') \<Rightarrow> (Inr x, s'))"

definition emit :: "event \<Rightarrow> 'w state \<Rightarrow> 'w state" where
  "emit ev s = s\<lparr>trace := trace s @ [ev]\<rparr>"

definition call :: "request \<Rightarrow> ('w \<Rightarrow> (error + 'a) \<times> 'w) \<Rightarrow> ('w, 'a) io" where
  "call r f s =
     (case f (ext s) of (res, w) \<Rightarrow> (res, emit (Call r (\<not> isl res)) (s\<lparr>ext := w\<rparr>)))"

definition call_total :: "request \<Rightarrow> ('w \<Rightarrow> 'a \<times> 'w) \<Rightarrow> ('w, 'a) io" where
  "call_total r f s = (case f (ext s) of (x, w) \<Rightarrow> (Inr x, emit (Call r True) (s\<lparr>ext := w\<rparr>)))"

definition console :: "level \<Rightarrow> logarg list \<Rightarrow> ('w, unit) io" where
  "console l args s = (Inr (), emit (Console l args) s)"

text \<open>A promise that was started and is looked at later: its outcome as a value.\<close>

definition io_settle :: "('w, 'a) io \<Rightarrow> ('w, error + 'a) io" where
  "io_settle m s = (case m s of (res, s') \<Rightarrow> (Inr res, s'))"

definition io_await :: "error + 'a \<Rightarrow> ('w, 'a) io" where
  "io_await res s = (res, s)"

text \<open>
  \<^verbatim>\<open>Promise.all(xs.map(async (x) => ...))\<close>: every task is started and runs to its own
  end, whatever the others do. The joint promise resolves to the list of results when
  no task rejects, and rejects otherwise with the rejection that settles first in time.
  Which one that is, the code does not fix: \<open>first\<close>, a parameter, picks it among the
  rejections of the tasks (an index into their list, taken modulo its length). The
  tasks are run one after the other, in the order of the list, and the state that is
  returned holds what all of them did; in the program a rejection is delivered without
  waiting for the tasks that still run, whose calls then come after it. Neither provider
  does anything after a rejection of \<^verbatim>\<open>Promise.all\<close> but pass it on.
\<close>

fun run_all :: "('w, 'a) io list \<Rightarrow> 'w state \<Rightarrow> (error + 'a) list \<times> 'w state" where
  "run_all [] s = ([], s)"
| "run_all (t # ts) s =
     (case t s of (r, s') \<Rightarrow> (case run_all ts s' of (rs, s'') \<Rightarrow> (r # rs, s'')))"

fun rejections :: "(error + 'a) list \<Rightarrow> error list" where
  "rejections [] = []"
| "rejections (Inl e # rs) = e # rejections rs"
| "rejections (Inr x # rs) = rejections rs"

fun resolutions :: "(error + 'a) list \<Rightarrow> 'a list" where
  "resolutions [] = []"
| "resolutions (Inl e # rs) = resolutions rs"
| "resolutions (Inr x # rs) = x # resolutions rs"

definition promise_all :: "(error list \<Rightarrow> nat) \<Rightarrow> ('w, 'a) io list \<Rightarrow> ('w, 'a list) io" where
  "promise_all first ts s =
     (case run_all ts s of
        (rs, s') \<Rightarrow>
          (case rejections rs of
             [] \<Rightarrow> (Inr (resolutions rs), s')
           | e # es \<Rightarrow> (Inl ((e # es) ! (first (e # es) mod length (e # es))), s')))"

text \<open>
  Modelled from the spec: \<^verbatim>\<open>reportPlatformFailures\<close> of \<^verbatim>\<open>utils/metrics\<close> is not among the
  sources. It settles as the promise it is given and reports the outcome under the
  given name.
\<close>

definition reportPlatformFailures :: "('w, 'a) io \<Rightarrow> jsstring \<Rightarrow> ('w, 'a) io" where
  "reportPlatformFailures promise name s =
     (case promise s of (res, s') \<Rightarrow> (res, emit (Call (ReportPlatform name) (\<not> isl res)) s'))"

section \<open>The provider of \<^verbatim>\<open>server/utils/CertificateProvider.tsx\<close>\<close>

record config =
  idbPath :: jsstring
  enableAndroid :: bool
  enableIOS :: bool
  androidHome :: jsstring
  enablePhysicalIOS :: bool

text \<open>
  The fields of the object that the methods read: \<^verbatim>\<open>config\<close>, \<^verbatim>\<open>_adb\<close> (\<open>None\<close> when
  undefined) and the settled \<^verbatim>\<open>certificateSetup\<close> promise.
\<close>

record provider =
  config :: config
  adb_slot :: "adb_client option"
  certificateSetup :: "error + unit"

definition caKey :: "'w env \<Rightarrow> jsstring" where "caKey env = getFilePath env (js ''ca.key'')"
definition caCert :: "'w env \<Rightarrow> jsstring" where "caCert env = getFilePath env (js ''ca.crt'')"
definition serverKey :: "'w env \<Rightarrow> jsstring" where "serverKey env = getFilePath env (js ''server.key'')"
definition serverCsr :: "'w env \<Rightarrow> jsstring" where "serverCsr env = getFilePath env (js ''server.csr'')"
definition serverSrl :: "'w env \<Rightarrow> jsstring" where "serverSrl env = getFilePath env (js ''server.srl'')"
definition serverCert :: "'w env \<Rightarrow> jsstring" where "serverCert env = getFilePath env (js ''server.crt'')"

definition csrFileName :: jsstring where "csrFileName = js ''app.csr''"
definition deviceCAcertFile :: jsstring where "deviceCAcertFile = js ''sonarCA.crt''"
definition deviceClientCertFile :: jsstring where "deviceClientCertFile = js ''device.crt''"

definition caSubject :: jsstring where
  "caSubject = js ''/C=US/ST=CA/L=Menlo Park/O=Sonar/CN=SonarCA''"
definition serverSubject :: jsstring where
  "serverSubject = js ''/C=US/ST=CA/L=Menlo Park/O=Sonar/CN=localhost''"
definition minCertExpiryWindowSeconds :: nat where
  "minCertExpiryWindowSeconds = 24 * 60 * 60"

definition adb :: "provider \<Rightarrow> ('w, adb_client) io" where
  "adb this =
     (if enableAndroid (config this) then
        (case adb_slot this of
           Some client \<Rightarrow> io_return client
         | None \<Rightarrow> io_throw AdbNotInitialised)
      else io_throw AndroidNotEnabled)"

definition writeToTempFile :: "'w env \<Rightarrow> jsstring \<Rightarrow> ('w, jsstring) io" where
  "writeToTempFile env content =
     io_bind (call TmpFile (tmp_file env)) (\<lambda>path.
     io_bind (call (FsWriteFile path content) (fs_writeFile env path content)) (\<lambda>_.
     io_return path))"

definition ensureOpenSSLIsAvailable :: "'w env \<Rightarrow> ('w, unit) io" where
  "ensureOpenSSLIsAvailable env =
     io_bind (call_total OpensslInstalled (opensslInstalled env)) (\<lambda>installed.
     if \<not> installed then (\<lambda>s. (Inr (), emit (ServerEmit OpenSSLNotInstalled) s))
     else io_return ())"

definition getCACertificate :: "'w env \<Rightarrow> ('w, jsstring) io" where
  "getCACertificate env = call (FsReadFile (caCert env)) (fs_readFile env (caCert env))"

definition generateClientCertificate :: "'w env \<Rightarrow> jsstring \<Rightarrow> ('w, jsstring) io" where
  "generateClientCertificate env csr =
     io_bind (console Debug [Text (js ''Creating new client cert''),
                             Text (js ''CertificateProvider'')]) (\<lambda>_.
     io_bind (writeToTempFile env csr) (\<lambda>path.
     (let cmd = X509_sign path (caCert env) (caKey env) (serverSrl env)
      in call (Openssl cmd) (openssl env cmd))))"

definition getRelativePathInAppContainer :: "jsstring \<Rightarrow> ('w, jsstring) io" where
  "getRelativePathInAppContainer absolutePath =
     (case exec_first appContainer_at absolutePath of
        Some rel \<Rightarrow> io_return rel
      | None \<Rightarrow> io_throw (PathDidNotMatch absolutePath))"

definition extractAppNameFromCSR :: "'w env \<Rightarrow> jsstring \<Rightarrow> ('w, jsstring) io" where
  "extractAppNameFromCSR env csr =
     io_bind (writeToTempFile env csr) (\<lambda>path.
     io_bind (call (Openssl (Req_subject path)) (openssl env (Req_subject path))) (\<lambda>subject.
     io_bind (call (FsUnlink path) (fs_unlink env path)) (\<lambda>_.
     (case x509SubjectCNRegex (trim subject) of
        None \<Rightarrow> io_throw (CannotExtractCN subject)
      | Some appName \<Rightarrow>
          if \<not> matches_class_plus allowedAppNameRegex appName
          then io_throw (DisallowedAppName appName)
          else io_return appName))))"

subsection \<open>Device identity\<close>

text \<open>
  \<^verbatim>\<open>encodeURI\<close> throws a \<^verbatim>\<open>URIError\<close> on a lone surrogate. Its result is only logged, so
  the logged text is left as it is and the exception is kept.
\<close>

fun well_formed_utf16 :: "jsstring \<Rightarrow> bool" where
  "well_formed_utf16 [] = True"
| "well_formed_utf16 [c] = (\<not> (0xD800 \<le> c \<and> c \<le> 0xDFFF))"
| "well_formed_utf16 (c # d # s) =
     (if 0xD800 \<le> c \<and> c \<le> 0xDBFF
      then 0xDC00 \<le> d \<and> d \<le> 0xDFFF \<and> well_formed_utf16 s
      else \<not> (0xDC00 \<le> c \<and> c \<le> 0xDFFF) \<and> well_formed_utf16 (d # s))"

definition encodeURI :: "jsstring \<Rightarrow> ('w, jsstring) io" where
  "encodeURI s = (if well_formed_utf16 s then io_return s else io_throw URIError)"

text \<open>\<^verbatim>\<open>d.foundCsr ? encodeURI(d.foundCsr) : 'null'\<close>: the empty string is falsy.\<close>

definition found_csr_text :: "jsstring option \<Rightarrow> ('w, jsstring) io" where
  "found_csr_text found =
     (case found of
        Some c \<Rightarrow> if c \<noteq> [] then encodeURI c else io_return (js ''null'')
      | None \<Rightarrow> io_return (js ''null''))"

text \<open>\<^verbatim>\<open>xs.map(f)\<close> for an \<open>f\<close> that may throw: the first exception ends the loop.\<close>

fun io_map :: "('a \<Rightarrow> ('w, 'b) io) \<Rightarrow> 'a list \<Rightarrow> ('w, 'b list) io" where
  "io_map f [] = io_return []"
| "io_map f (x # xs) =
     io_bind (f x) (\<lambda>y. io_bind (io_map f xs) (\<lambda>ys. io_return (y # ys)))"

record android_match =
  dev_id :: jsstring
  isMatch :: bool
  foundCsr :: "jsstring option"
  dev_error :: "error option"

definition androidDeviceHasMatchingCSR ::
  "'w env \<Rightarrow> provider \<Rightarrow> jsstring \<Rightarrow> jsstring \<Rightarrow> jsstring \<Rightarrow> jsstring
     \<Rightarrow> ('w, bool \<times> jsstring) io" where
  "androidDeviceHasMatchingCSR env this directory deviceId processName csr =
     io_bind (adb this) (\<lambda>adbClient.
     io_bind (call (AndroidPull deviceId processName (directory @ csrFileName))
                (androidUtil_pull env adbClient deviceId processName (directory @ csrFileName)))
       (\<lambda>deviceCsr.
     (let sanitizedDeviceCsr = santitizeString deviceCsr;
          sanitizedClientCsr = santitizeString csr
      in io_return (sanitizedDeviceCsr = sanitizedClientCsr, sanitizedDeviceCsr))))"

text \<open>
  \<open>android_check\<close> is the callback of \<^verbatim>\<open>devicesInAdb.map\<close> in \<^verbatim>\<open>getTargetAndroidDeviceId\<close>,
  with its \<^verbatim>\<open>try\<close> and \<^verbatim>\<open>catch\<close>. In \<^verbatim>\<open>devices.find((d) => d.error)\<close> an error is
  truthy, as the \<^verbatim>\<open>Error\<close> objects of the collaborators are; the device that \<^verbatim>\<open>find\<close>
  returns has an error, so the inner \<open>None\<close> below is never taken.
\<close>

definition android_check ::
  "'w env \<Rightarrow> provider \<Rightarrow> jsstring \<Rightarrow> jsstring \<Rightarrow> jsstring \<Rightarrow> jsstring
     \<Rightarrow> ('w, android_match) io" where
  "android_check env this appName deviceCsrFilePath csr device =
     io_catch
       (io_bind (androidDeviceHasMatchingCSR env this deviceCsrFilePath device appName csr)
          (\<lambda>result. io_return
             \<lparr>dev_id = device, isMatch = fst result, foundCsr = Some (snd result),
              dev_error = None\<rparr>))
       (\<lambda>e.
          io_bind (console Warn
                     [Text (js ''Unable to check for matching CSR in '' @ device @ js '':'' @ appName),
                      Text (js ''CertificateProvider''), Thrown e])
            (\<lambda>_. io_return
               \<lparr>dev_id = device, isMatch = False, foundCsr = None, dev_error = Some e\<rparr>))"

definition getTargetAndroidDeviceId ::
  "'w env \<Rightarrow> provider \<Rightarrow> jsstring \<Rightarrow> jsstring \<Rightarrow> jsstring \<Rightarrow> ('w, jsstring) io" where
  "getTargetAndroidDeviceId env this appName deviceCsrFilePath csr =
     io_bind (io_bind (adb this) (\<lambda>client. call ListDevices (listDevices env client)))
       (\<lambda>devicesInAdb.
     if length devicesInAdb = 0 then io_throw NoAndroidDevices
     else
       io_bind (promise_all (settled_first env)
                  (map (android_check env this appName deviceCsrFilePath csr) devicesInAdb))
         (\<lambda>devices.
       (let matchingIds = map dev_id (filter isMatch devices) in
        if length matchingIds = 0 then
          (case List.find (\<lambda>d. dev_error d \<noteq> None) devices of
             Some erroredDevice \<Rightarrow>
               (case dev_error erroredDevice of
                  Some e \<Rightarrow> io_throw e
                | None \<Rightarrow> io_throw (NoMatchingDevice appName))
           | None \<Rightarrow>
               io_bind (io_map found_csr_text
                          (map foundCsr (filter (\<lambda>d. foundCsr d \<noteq> None) devices)))
                 (\<lambda>foundCsrs.
               io_bind (encodeURI (santitizeString csr)) (\<lambda>wanted.
               io_bind (console Warn (Text (js ''Looking for CSR (url encoded):'') # Text wanted
                                        # Text (js ''Found these:'') # map Text foundCsrs))
                 (\<lambda>_. io_throw (NoMatchingDevice appName)))))
        else
          io_bind (if length matchingIds > 1
                   then console Warn
                          [Thrown (External (js ''[conn] More than one matching device found for CSR'')),
                           Text csr]
                   else io_return ())
            (\<lambda>_. io_return (hd matchingIds)))))"

definition iOSDeviceHasMatchingCSR ::
  "'w env \<Rightarrow> provider \<Rightarrow> jsstring \<Rightarrow> jsstring \<Rightarrow> jsstring \<Rightarrow> jsstring \<Rightarrow> ('w, bool) io" where
  "iOSDeviceHasMatchingCSR env this directory deviceId bundleId csr =
     io_bind (getRelativePathInAppContainer (path_resolve env directory csrFileName))
       (\<lambda>originalFile.
     io_bind (call TmpDir (tmp_dir env)) (\<lambda>dir.
     io_bind (call (IosPull deviceId originalFile bundleId dir (idbPath (config this)))
                (iosUtil_pull env deviceId originalFile bundleId dir (idbPath (config this))))
       (\<lambda>_.
     io_bind (call (FsReaddir dir) (fs_readdir env dir)) (\<lambda>items.
     if length items > 1 then io_throw ConflictInTempDir
     else
       (case items of
          [] \<Rightarrow> io_throw FailedToPullCsr
        | fileName # _ \<Rightarrow>
            (let copiedFile = path_resolve env dir fileName in
             io_bind (console Debug [Text (js ''Trying to read CSR from''), Text copiedFile])
               (\<lambda>_.
             io_bind (call (FsReadFile copiedFile) (fs_readFile env copiedFile)) (\<lambda>data.
             (let csrFromDevice = santitizeString data
              in io_return (csrFromDevice = santitizeString csr))))))))))"

text \<open>
  \<open>ios_check\<close> is the callback of \<^verbatim>\<open>targets.map\<close> in \<^verbatim>\<open>getTargetiOSDeviceId\<close>: it has no
  \<^verbatim>\<open>try\<close>.
\<close>

definition ios_check ::
  "'w env \<Rightarrow> provider \<Rightarrow> jsstring \<Rightarrow> jsstring \<Rightarrow> jsstring \<Rightarrow> jsstring
     \<Rightarrow> ('w, jsstring \<times> bool) io" where
  "ios_check env this appName deviceCsrFilePath csr target =
     io_bind (iOSDeviceHasMatchingCSR env this deviceCsrFilePath target appName csr)
       (\<lambda>isMatch. io_return (target, isMatch))"

definition getTargetiOSDeviceId ::
  "'w env \<Rightarrow> provider \<Rightarrow> jsstring \<Rightarrow> jsstring \<Rightarrow> jsstring \<Rightarrow> ('w, jsstring) io" where
  "getTargetiOSDeviceId env this appName deviceCsrFilePath csr =
     (case exec_first simulatorId_at deviceCsrFilePath of
        Some simulator \<Rightarrow> io_return simulator
      | None \<Rightarrow>
          io_bind (call (IosTargets (idbPath (config this)) (enablePhysicalIOS (config this)))
                     (iosUtil_targets env (idbPath (config this)) (enablePhysicalIOS (config this))))
            (\<lambda>targets.
          if length targets = 0 then io_throw NoIOSDevices
          else
            io_bind (promise_all (settled_first env)
                       (map (ios_check env this appName deviceCsrFilePath csr) targets))
              (\<lambda>devices.
            (let matchingIds = map fst (filter snd devices) in
             if length matchingIds = 0 then io_throw (NoMatchingDevice appName)
             else
               io_bind (if length matchingIds > 1
                        then console Warn [Text (js ''Multiple devices found for app: '' @ appName)]
                        else io_return ())
                 (\<lambda>_. io_return (hd matchingIds))))))"

definition getTargetDeviceId ::
  "'w env \<Rightarrow> provider \<Rightarrow> jsstring \<Rightarrow> jsstring \<Rightarrow> jsstring \<Rightarrow> jsstring \<Rightarrow> ('w, jsstring) io" where
  "getTargetDeviceId env this os appName appDirectory csr =
     (if os = js ''Android'' then getTargetAndroidDeviceId env this appName appDirectory csr
      else if os = js ''iOS'' then getTargetiOSDeviceId env this appName appDirectory csr
      else if os = js ''MacOS'' then io_return []
      else io_return (js ''unknown''))"

subsection \<open>Delivery\<close>

definition pushFileToiOSDevice ::
  "'w env \<Rightarrow> provider \<Rightarrow> jsstring \<Rightarrow> jsstring \<Rightarrow> jsstring \<Rightarrow> jsstring \<Rightarrow> jsstring
     \<Rightarrow> ('w, unit) io" where
  "pushFileToiOSDevice env this udid bundleId destination filename contents =
     io_bind (call TmpDir (tmp_dir env)) (\<lambda>dir.
     (let filePath = path_resolve env dir filename in
      io_bind (call (FsWriteFile filePath contents) (fs_writeFile env filePath contents)) (\<lambda>_.
      call (IosPush udid filePath bundleId destination (idbPath (config this)))
        (iosUtil_push env udid filePath bundleId destination (idbPath (config this))))))"

definition deployOrStageFileForMobileApp ::
  "'w env \<Rightarrow> provider \<Rightarrow> jsstring \<Rightarrow> jsstring \<Rightarrow> jsstring \<Rightarrow> jsstring \<Rightarrow> jsstring
     \<Rightarrow> medium \<Rightarrow> jsstring \<Rightarrow> ('w, unit) io" where
  "deployOrStageFileForMobileApp env this destination filename contents csr os medium certFolder =
     (if medium = WWW then
        io_bind (call_total (FsPathExists certFolder) (fs_pathExists env certFolder))
          (\<lambda>certPathExists.
        io_bind (if \<not> certPathExists
                 then call (FsMkdir certFolder) (fs_mkdir env certFolder)
                 else io_return ())
          (\<lambda>_.
        io_catch (call (FsWriteFile (certFolder @ filename) contents)
                    (fs_writeFile env (certFolder @ filename) contents))
          (\<lambda>e. io_throw (FailedToWriteTemp filename e))))
      else
        io_bind (extractAppNameFromCSR env csr) (\<lambda>appName.
        if os = js ''Android'' then
          io_bind (getTargetAndroidDeviceId env this appName destination csr) (\<lambda>deviceId.
          io_bind (adb this) (\<lambda>adbClient.
          call (AndroidPush deviceId appName (destination @ filename) contents)
            (androidUtil_push env adbClient deviceId appName (destination @ filename) contents)))
        else if os = js ''iOS'' \<or> os = js ''windows'' \<or> os = js ''MacOS'' then
          io_catch (call (FsWriteFile (destination @ filename) contents)
                      (fs_writeFile env (destination @ filename) contents))
            (\<lambda>err.
               io_bind (getRelativePathInAppContainer destination) (\<lambda>relativePathInsideApp.
               io_bind (getTargetiOSDeviceId env this appName destination csr) (\<lambda>udid.
               pushFileToiOSDevice env this udid appName relativePathInsideApp filename contents)))
        else io_throw (UnsupportedOS os)))"

subsection \<open>The authority\<close>

definition checkCertIsValid :: "'w env \<Rightarrow> jsstring \<Rightarrow> ('w, unit) io" where
  "checkCertIsValid env filename =
     io_bind (call_total (FsPathExists filename) (fs_pathExists env filename)) (\<lambda>exists.
     if \<not> exists then io_throw (DoesNotExist filename)
     else
       io_catch
         (io_bind (call (Openssl (X509_checkend minCertExpiryWindowSeconds filename))
                     (openssl env (X509_checkend minCertExpiryWindowSeconds filename)))
            (\<lambda>_. io_return ()))
         (\<lambda>e.
            io_bind (console Warn
                       [Text (js ''Checking if certificate expire soon: '' @ filename),
                        Text (js ''CertificateProvider''), Thrown e])
              (\<lambda>_.
            io_bind (call (Openssl (X509_enddate filename)) (openssl env (X509_enddate filename)))
              (\<lambda>endDateOutput.
            (case split_on (cu CHR ''='') (trim endDateOutput) of
               _ # part # _ \<Rightarrow>
                 (let dateString = trim part in
                  case date_parse env dateString of
                    None \<Rightarrow>
                      io_bind (console Err
                                 [Text (js ''Unable to parse certificate expiry date: ''
                                        @ endDateOutput)])
                        (\<lambda>_. io_throw CannotParseExpiry)
                  | Some expiryDate \<Rightarrow>
                      io_bind (call_total DateNow (date_now env)) (\<lambda>now.
                      if expiryDate \<le> now + int minCertExpiryWindowSeconds * 1000
                      then io_throw CertExpired
                      else io_return ()))
             | _ \<Rightarrow> io_throw TypeError)))))"

definition verifyServerCertWasIssuedByCA :: "'w env \<Rightarrow> ('w, unit) io" where
  "verifyServerCertWasIssuedByCA env =
     io_bind (call (Openssl (Verify (caCert env) (serverCert env)))
                (openssl env (Verify (caCert env) (serverCert env))))
       (\<lambda>output.
     if \<not> verifiedRegex output then io_throw NotIssuedByCA else io_return ())"

definition generateCertificateAuthority :: "'w env \<Rightarrow> ('w, unit) io" where
  "generateCertificateAuthority env =
     io_bind (call_total (FsPathExists (getFilePath env []))
                (fs_pathExists env (getFilePath env [])))
       (\<lambda>dirExists.
     io_bind (if \<not> dirExists
              then call (FsMkdir (getFilePath env [])) (fs_mkdir env (getFilePath env []))
              else io_return ())
       (\<lambda>_.
     io_bind (console Info [Text (js ''Generating new CA''), Text (js ''CertificateProvider'')])
       (\<lambda>_.
     io_bind (call (Openssl (Genrsa (caKey env))) (openssl env (Genrsa (caKey env)))) (\<lambda>_.
     io_bind (call (Openssl (Req_new_x509 caSubject (caKey env) (caCert env)))
                (openssl env (Req_new_x509 caSubject (caKey env) (caCert env))))
       (\<lambda>_. io_return ())))))"

definition ensureCertificateAuthorityExists :: "'w env \<Rightarrow> ('w, unit) io" where
  "ensureCertificateAuthorityExists env =
     io_bind (call_total (FsPathExists (caKey env)) (fs_pathExists env (caKey env)))
       (\<lambda>keyExists.
     if \<not> keyExists then generateCertificateAuthority env
     else io_catch (checkCertIsValid env (caCert env)) (\<lambda>_. generateCertificateAuthority env))"

definition generateServerCertificate :: "'w env \<Rightarrow> ('w, unit) io" where
  "generateServerCertificate env =
     io_bind (ensureCertificateAuthorityExists env) (\<lambda>_.
     io_bind (console Warn [Text (js ''Creating new server cert''), Text (js ''CertificateProvider'')])
       (\<lambda>_.
     io_bind (call (Openssl (Genrsa (serverKey env))) (openssl env (Genrsa (serverKey env))))
       (\<lambda>_.
     io_bind (call (Openssl (Req_new (serverKey env) (serverCsr env) serverSubject))
                (openssl env (Req_new (serverKey env) (serverCsr env) serverSubject)))
       (\<lambda>_.
     (let cmd = X509_sign_out (serverCsr env) (caCert env) (caKey env) (serverSrl env)
                  (serverCert env)
      in io_bind (call (Openssl cmd) (openssl env cmd)) (\<lambda>_. io_return ()))))))"

definition ensureServerCertExists :: "'w env \<Rightarrow> ('w, unit) io" where
  "ensureServerCertExists env =
     io_bind (call_total (FsPathExists (serverKey env)) (fs_pathExists env (serverKey env)))
       (\<lambda>keyExists.
     io_bind (call_total (FsPathExists (serverCert env)) (fs_pathExists env (serverCert env)))
       (\<lambda>certExists.
     io_bind (call_total (FsPathExists (caCert env)) (fs_pathExists env (caCert env)))
       (\<lambda>caExists.
     (let allExist = list_all (\<lambda>b. b) [keyExists, certExists, caExists] in
      if \<not> allExist then generateServerCertificate env
      else
        io_catch
          (io_bind (checkCertIsValid env (serverCert env)) (\<lambda>_.
           verifyServerCertWasIssuedByCA env))
          (\<lambda>e.
             io_bind (console Warn
                        [Text (js ''Not all certs are valid, generating new ones''), Thrown e])
               (\<lambda>_. generateServerCertificate env))))))"

subsection \<open>The exchange\<close>

definition uploadFiles :: "'w env \<Rightarrow> jsstring \<Rightarrow> jsstring \<Rightarrow> ('w, unit) io" where
  "uploadFiles env zipPath deviceID =
     io_bind (call (FsReadFile zipPath) (fs_readFile env zipPath)) (\<lambda>buff.
     reportPlatformFailures
       (call (GraphPost (5 * 60 * 1000) (js ''flipper/certificates'') buff deviceID)
          (graph_post env (5 * 60 * 1000) (js ''flipper/certificates'') buff deviceID))
       (js ''uploadCertificates''))"

definition processCertificateSigningRequest ::
  "'w env \<Rightarrow> provider \<Rightarrow> jsstring \<Rightarrow> jsstring \<Rightarrow> jsstring \<Rightarrow> medium \<Rightarrow> ('w, jsstring) io" where
  "processCertificateSigningRequest env this unsanitizedCsr os appDirectory medium =
     (let csr = santitizeString unsanitizedCsr in
      if csr = [] then io_throw (EmptyCsr os)
      else
        io_bind (ensureOpenSSLIsAvailable env) (\<lambda>_.
        io_bind (call TmpDir (tmp_dir env)) (\<lambda>rootFolder.
        (let certFolder = rootFolder @ js ''/FlipperCerts/'';
             certsZipPath = rootFolder @ js ''/certs.zip''
         in
        io_bind (io_await (certificateSetup this)) (\<lambda>_.
        io_bind (getCACertificate env) (\<lambda>caCert.
        io_bind (deployOrStageFileForMobileApp env this appDirectory deviceCAcertFile caCert
                   csr os medium certFolder) (\<lambda>_.
        io_bind (generateClientCertificate env csr) (\<lambda>clientCert.
        io_bind (deployOrStageFileForMobileApp env this appDirectory deviceClientCertFile
                   clientCert csr os medium certFolder) (\<lambda>_.
        io_bind (extractAppNameFromCSR env csr) (\<lambda>appName.
        io_bind (if medium = FS_ACCESS
                 then getTargetDeviceId env this os appName appDirectory csr
                 else call_total Uuid (uuid env)) (\<lambda>deviceId.
        io_bind (if medium = WWW then
                   io_bind (reportPlatformFailures
                              (call (ZipDirectory certFolder certsZipPath)
                                 (zip_directory env certFolder certsZipPath))
                              (js ''www-certs-exchange-zipping-certs'')) (\<lambda>_.
                   reportPlatformFailures (uploadFiles env certsZipPath deviceId)
                     (js ''www-certs-exchange-uploading-certs''))
                 else io_return ()) (\<lambda>_.
        io_return deviceId))))))))))))"

section \<open>The provider of \<^verbatim>\<open>utils/CertificateProvider.tsx\<close>\<close>

text \<open>
  The older provider. Its methods are named as in the source with the suffix
  \<open>_legacy\<close>; \<^verbatim>\<open>santitizeString\<close>, \<^verbatim>\<open>getTargetDeviceId\<close>, \<^verbatim>\<open>ensureOpenSSLIsAvailable\<close>,
  \<^verbatim>\<open>getCACertificate\<close>, \<^verbatim>\<open>generateClientCertificate\<close>, \<^verbatim>\<open>getRelativePathInAppContainer\<close>
  and \<^verbatim>\<open>writeToTempFile\<close> read as in the other file. The object holds the settled
  \<^verbatim>\<open>adb\<close> and \<^verbatim>\<open>certificateSetup\<close> promises and the \<^verbatim>\<open>idbPath\<close> of the store.
\<close>

record provider_legacy =
  store_idbPath :: jsstring
  adb_promise :: "error + adb_client"
  certificateSetup_promise :: "error + unit"

definition extractAppNameFromCSR_legacy :: "'w env \<Rightarrow> jsstring \<Rightarrow> ('w, jsstring) io" where
  "extractAppNameFromCSR_legacy env csr =
     io_bind (io_bind (writeToTempFile env csr) (\<lambda>path.
              io_bind (call (Openssl (Req_subject path)) (openssl env (Req_subject path)))
                (\<lambda>subject. io_return (path, subject))))
       (\<lambda>(path, subject).
     io_bind (io_bind (call (FsUnlink path) (fs_unlink env path)) (\<lambda>_. io_return subject))
       (\<lambda>subject.
     io_bind (case x509SubjectCNRegex (trim subject) of
                None \<Rightarrow> io_throw (CannotExtractCN subject)
              | Some cn \<Rightarrow> io_return cn)
       (\<lambda>appName.
     if \<not> matches_class_plus allowedAppNameRegex_legacy appName
     then io_throw (DisallowedAppName appName)
     else io_return appName)))"

definition androidDeviceHasMatchingCSR_legacy ::
  "'w env \<Rightarrow> provider_legacy \<Rightarrow> jsstring \<Rightarrow> jsstring \<Rightarrow> jsstring \<Rightarrow> jsstring \<Rightarrow> ('w, bool) io"
  where
  "androidDeviceHasMatchingCSR_legacy env this directory deviceId processName csr =
     io_bind (io_bind (io_await (adb_promise this)) (\<lambda>adbClient.
              call (AndroidPull deviceId processName (directory @ csrFileName))
                (androidUtil_pull env adbClient deviceId processName (directory @ csrFileName))))
       (\<lambda>deviceCsr. io_return (santitizeString deviceCsr = santitizeString csr))"

definition android_check_legacy ::
  "'w env \<Rightarrow> provider_legacy \<Rightarrow> jsstring \<Rightarrow> jsstring \<Rightarrow> jsstring \<Rightarrow> jsstring
     \<Rightarrow> ('w, jsstring \<times> bool \<times> error option) io" where
  "android_check_legacy env this appName deviceCsrFilePath csr device =
     io_catch
       (io_bind (androidDeviceHasMatchingCSR_legacy env this deviceCsrFilePath device appName csr)
          (\<lambda>isMatch. io_return (device, isMatch, None)))
       (\<lambda>e.
          io_bind (console Err
                     [Text (js ''Unable to check for matching CSR in '' @ device @ js '':'' @ appName),
                      Text (js ''CertificateProvider'')])
            (\<lambda>_. io_return (device, False, Some e)))"

definition getTargetAndroidDeviceId_legacy ::
  "'w env \<Rightarrow> provider_legacy \<Rightarrow> jsstring \<Rightarrow> jsstring \<Rightarrow> jsstring \<Rightarrow> ('w, jsstring) io" where
  "getTargetAndroidDeviceId_legacy env this appName deviceCsrFilePath csr =
     io_bind (io_bind (io_await (adb_promise this))
                (\<lambda>client. call ListDevices (listDevices env client)))
       (\<lambda>devices0.
     if length devices0 = 0 then io_throw NoAndroidDevices
     else
       io_bind (promise_all (settled_first env)
                  (map (android_check_legacy env this appName deviceCsrFilePath csr) devices0))
         (\<lambda>devices.
       (let matchingIds = map fst (filter (\<lambda>m. fst (snd m)) devices) in
        if length matchingIds = 0 then
          (case List.find (\<lambda>d. snd (snd d) \<noteq> None) devices of
             Some erroredDevice \<Rightarrow>
               (case snd (snd erroredDevice) of
                  Some e \<Rightarrow> io_throw e
                | None \<Rightarrow> io_throw (NoMatchingDevice appName))
           | None \<Rightarrow> io_throw (NoMatchingDevice appName))
        else
          io_bind (if length matchingIds > 1
                   then console Err
                          [Thrown (External (js ''More than one matching device found for CSR'')),
                           Text csr]
                   else io_return ())
            (\<lambda>_. io_return (hd matchingIds)))))"

definition iOSDeviceHasMatchingCSR_legacy ::
  "'w env \<Rightarrow> provider_legacy \<Rightarrow> jsstring \<Rightarrow> jsstring \<Rightarrow> jsstring \<Rightarrow> jsstring \<Rightarrow> ('w, bool) io"
  where
  "iOSDeviceHasMatchingCSR_legacy env this directory deviceId bundleId csr =
     io_bind (getRelativePathInAppContainer (path_resolve env directory csrFileName))
       (\<lambda>originalFile.
     io_bind (io_bind (call TmpDir (tmp_dir env)) (\<lambda>dir.
              io_bind (call (IosPull deviceId originalFile bundleId (path_join env dir csrFileName)
                               (store_idbPath this))
                         (iosUtil_pull env deviceId originalFile bundleId
                            (path_join env dir csrFileName) (store_idbPath this)))
                (\<lambda>_. io_return dir)))
       (\<lambda>dir.
     io_bind (io_bind (io_bind (call (FsReaddir dir) (fs_readdir env dir)) (\<lambda>items.
                       if length items > 1 then io_throw ConflictInTempDir
                       else (case items of
                               [] \<Rightarrow> io_throw FailedToPullCsr
                             | fileName # _ \<Rightarrow> io_return fileName)))
                (\<lambda>fileName.
                   (let copiedFile = path_resolve env dir fileName in
                    io_bind (call (FsReadFile copiedFile) (fs_readFile env copiedFile))
                      (\<lambda>data. io_return (santitizeString data)))))
       (\<lambda>csrFromDevice. io_return (csrFromDevice = santitizeString csr))))"

definition getTargetiOSDeviceId_legacy ::
  "'w env \<Rightarrow> provider_legacy \<Rightarrow> jsstring \<Rightarrow> jsstring \<Rightarrow> jsstring \<Rightarrow> ('w, jsstring) io" where
  "getTargetiOSDeviceId_legacy env this appName deviceCsrFilePath csr =
     (case exec_first simulatorId_at deviceCsrFilePath of
        Some simulator \<Rightarrow> io_return simulator
      | None \<Rightarrow>
          io_bind (call IosTargets0 (iosUtil_targets0 env)) (\<lambda>targets.
          if length targets = 0 then io_throw NoIOSDevices
          else
            io_bind (promise_all (settled_first env)
                       (map (\<lambda>target.
                               io_bind (iOSDeviceHasMatchingCSR_legacy env this deviceCsrFilePath
                                          target appName csr)
                                 (\<lambda>isMatch. io_return (target, isMatch)))
                          targets))
              (\<lambda>devices.
            (let matchingIds = map fst (filter snd devices) in
             if length matchingIds = 0 then io_throw (NoMatchingDevice appName)
             else io_return (hd matchingIds)))))"

definition getTargetDeviceId_legacy ::
  "'w env \<Rightarrow> provider_legacy \<Rightarrow> jsstring \<Rightarrow> jsstring \<Rightarrow> jsstring \<Rightarrow> jsstring
     \<Rightarrow> ('w, jsstring) io" where
  "getTargetDeviceId_legacy env this os appName appDirectory csr =
     (if os = js ''Android'' then getTargetAndroidDeviceId_legacy env this appName appDirectory csr
      else if os = js ''iOS'' then getTargetiOSDeviceId_legacy env this appName appDirectory csr
      else if os = js ''MacOS'' then io_return []
      else io_return (js ''unknown''))"

text \<open>
  \<^verbatim>\<open>pushFileToiOSDevice\<close> does not return the promise of the write and the push: it
  resolves once the temporary directory is there, and what the write and the push do
  is not looked at.
\<close>

definition pushFileToiOSDevice_legacy ::
  "'w env \<Rightarrow> provider_legacy \<Rightarrow> jsstring \<Rightarrow> jsstring \<Rightarrow> jsstring \<Rightarrow> jsstring \<Rightarrow> jsstring
     \<Rightarrow> ('w, unit) io" where
  "pushFileToiOSDevice_legacy env this udid bundleId destination filename contents =
     io_bind (call TmpDir (tmp_dir env)) (\<lambda>dir.
     (let filePath = path_resolve env dir filename in
      io_bind (io_settle
                 (io_bind (call (FsWriteFile filePath contents) (fs_writeFile env filePath contents))
                    (\<lambda>_. call (IosPush udid filePath bundleId destination (store_idbPath this))
                           (iosUtil_push env udid filePath bundleId destination
                              (store_idbPath this)))))
        (\<lambda>_. io_return ())))"

text \<open>
  \<^verbatim>\<open>deployFileToMobileApp\<close> starts \<^verbatim>\<open>extractAppNameFromCSR\<close> before it looks at the
  platform and awaits it only where the name is needed. For Android,
  \<^verbatim>\<open>Promise.all([deviceIdPromise, appNamePromise, this.adb])\<close> rejects first with the
  rejection of \<^verbatim>\<open>this.adb\<close>, which has settled before the call.
\<close>

definition deployFileToMobileApp_legacy ::
  "'w env \<Rightarrow> provider_legacy \<Rightarrow> jsstring \<Rightarrow> jsstring \<Rightarrow> jsstring \<Rightarrow> jsstring \<Rightarrow> jsstring
     \<Rightarrow> ('w, unit) io" where
  "deployFileToMobileApp_legacy env this destination filename contents csr os =
     io_bind (io_settle (extractAppNameFromCSR_legacy env csr)) (\<lambda>appNamePromise.
     if os = js ''Android'' then
       io_bind (io_settle
                  (io_bind (io_await appNamePromise) (\<lambda>app.
                   getTargetAndroidDeviceId_legacy env this app destination csr)))
         (\<lambda>deviceIdPromise.
       io_bind (io_await (adb_promise this)) (\<lambda>adbClient.
       io_bind (io_await deviceIdPromise) (\<lambda>deviceId.
       io_bind (io_await appNamePromise) (\<lambda>appName.
       call (AndroidPush deviceId appName (destination @ filename) contents)
         (androidUtil_push env adbClient deviceId appName (destination @ filename) contents)))))
     else if os = js ''iOS'' \<or> os = js ''windows'' \<or> os = js ''MacOS'' then
       io_catch (call (FsWriteFile (destination @ filename) contents)
                   (fs_writeFile env (destination @ filename) contents))
         (\<lambda>err.
            if os = js ''iOS'' then
              io_bind (getRelativePathInAppContainer destination) (\<lambda>relativePathInsideApp.
              io_bind (io_bind (io_await appNamePromise) (\<lambda>appName.
                       getTargetiOSDeviceId_legacy env this appName destination csr))
                (\<lambda>udid.
              io_bind (io_await appNamePromise) (\<lambda>appName.
              pushFileToiOSDevice_legacy env this udid appName relativePathInsideApp filename
                contents)))
            else io_throw (InvalidAppDirectory os destination err))
     else io_throw (UnsupportedOS os))"

definition checkCertIsValid_legacy :: "'w env \<Rightarrow> jsstring \<Rightarrow> ('w, unit) io" where
  "checkCertIsValid_legacy env filename =
     io_bind (call_total (FsPathExists filename) (fs_pathExists env filename)) (\<lambda>exists.
     if \<not> exists then io_throw (DoesNotExist filename)
     else
       io_bind
         (io_catch
            (io_bind (call (Openssl (X509_checkend minCertExpiryWindowSeconds filename))
                        (openssl env (X509_checkend minCertExpiryWindowSeconds filename)))
               (\<lambda>_. io_return ()))
            (\<lambda>e.
               io_bind (console Warn
                          [Text (js ''Certificate will expire soon: '' @ filename),
                           Text (js ''CertificateProvider'')])
                 (\<lambda>_. io_throw e)))
         (\<lambda>_.
       io_bind (call (Openssl (X509_enddate filename)) (openssl env (X509_enddate filename)))
         (\<lambda>endDateOutput.
       (case split_on (cu CHR ''='') (trim endDateOutput) of
          _ # part # _ \<Rightarrow>
            (let dateString = trim part in
             case date_parse env dateString of
               None \<Rightarrow>
                 io_bind (console Err
                            [Text (js ''Unable to parse certificate expiry date: ''
                                   @ endDateOutput)])
                   (\<lambda>_. io_throw CannotParseExpiry)
             | Some expiryDate \<Rightarrow>
                 io_bind (call_total DateNow (date_now env)) (\<lambda>now.
                 if expiryDate \<le> now + int minCertExpiryWindowSeconds * 1000
                 then io_throw CertExpired
                 else io_return ()))
        | _ \<Rightarrow> io_throw TypeError))))"

definition processCertificateSigningRequest_legacy ::
  "'w env \<Rightarrow> provider_legacy \<Rightarrow> jsstring \<Rightarrow> jsstring \<Rightarrow> jsstring \<Rightarrow> medium
     \<Rightarrow> ('w, jsstring) io" where
  "processCertificateSigningRequest_legacy env this unsanitizedCsr os appDirectory medium =
     (let csr = santitizeString unsanitizedCsr in
      if csr = [] then io_throw (EmptyCsr os)
      else
        io_bind (ensureOpenSSLIsAvailable env) (\<lambda>_.
        io_bind (io_await (certificateSetup_promise this)) (\<lambda>_.
        io_bind (getCACertificate env) (\<lambda>caCert.
        io_bind (deployFileToMobileApp_legacy env this appDirectory deviceCAcertFile caCert csr os)
          (\<lambda>_.
        io_bind (generateClientCertificate env csr) (\<lambda>clientCert.
        io_bind (deployFileToMobileApp_legacy env this appDirectory deviceClientCertFile clientCert
                   csr os)
          (\<lambda>_.
        io_bind (extractAppNameFromCSR_legacy env csr) (\<lambda>appName.
        io_bind (getTargetDeviceId_legacy env this os appName appDirectory csr) (\<lambda>deviceId.
        io_return deviceId)))))))))"

section \<open>A concrete world\<close>

text \<open>
  A world to run the providers in: every collaborator answers from a table, the world
  itself carries nothing. \<open>demo_env subject checkend enddate verify pulls post\<close> fixes
  what the toolkit prints for the subject of a request, what its two expiry commands
  and \<^verbatim>\<open>verify\<close> answer, what each device gives for its copy of the request, and what
  the upload answers.
\<close>

definition demo_csr :: jsstring where
  "demo_csr = js ''-----BEGIN CERTIFICATE REQUEST-----''"

definition demo_resolve :: "jsstring \<Rightarrow> jsstring \<Rightarrow> jsstring" where
  "demo_resolve a b = (if a \<noteq> [] \<and> last a = cu CHR ''/'' then a @ b else a @ cu CHR ''/'' # b)"

definition demo_openssl ::
  "jsstring \<Rightarrow> error + jsstring \<Rightarrow> error + jsstring \<Rightarrow> error + jsstring \<Rightarrow> openssl_cmd
     \<Rightarrow> unit \<Rightarrow> (error + jsstring) \<times> unit" where
  "demo_openssl subject checkend enddate verify cmd w =
     (case cmd of
        Req_subject _ \<Rightarrow> (Inr subject, w)
      | X509_checkend _ _ \<Rightarrow> (checkend, w)
      | X509_enddate _ \<Rightarrow> (enddate, w)
      | Verify _ _ \<Rightarrow> (verify, w)
      | X509_sign _ _ _ _ \<Rightarrow> (Inr (js ''-----BEGIN CERTIFICATE-----''), w)
      | _ \<Rightarrow> (Inr [], w))"

definition demo_pull :: "(jsstring \<times> (error + jsstring)) list \<Rightarrow> jsstring \<Rightarrow> error + jsstring"
  where
  "demo_pull pulls device =
     (case map_of pulls device of Some r \<Rightarrow> r | None \<Rightarrow> Inl (External (js ''no such device'')))"

definition demo_env ::
  "jsstring \<Rightarrow> error + jsstring \<Rightarrow> error + jsstring \<Rightarrow> error + jsstring
     \<Rightarrow> (jsstring \<times> (error + jsstring)) list \<Rightarrow> error + unit \<Rightarrow> unit env" where
  "demo_env subject checkend enddate verify pulls post =
     \<lparr>getFilePath = (\<lambda>name. js ''/home/u/.flipper/certs/'' @ name),
      path_resolve = demo_resolve,
      path_join = demo_resolve,
      date_parse = (\<lambda>d. if d = js ''Jan 1 00:00:00 2040 GMT'' then Some 2208988800000
                          else if d = js ''Jan 1 00:00:00 2020 GMT'' then Some 1577836800000
                          else None),
      settled_first = (\<lambda>errors. 0),
      date_now = (\<lambda>w. (1700000000000, w)),
      uuid = (\<lambda>w. (js ''0f8fad5b-d9cb-469f-a165-70867728950e'', w)),
      fs_pathExists = (\<lambda>p w. (True, w)),
      fs_mkdir = (\<lambda>p w. (Inr (), w)),
      fs_writeFile = (\<lambda>p c w. (Inr (), w)),
      fs_readFile = (\<lambda>p w. (Inr (if p = js ''/tmp/d/certs.zip'' then js ''PK'' else demo_csr), w)),
      fs_readdir = (\<lambda>p w. (Inr [js ''app.csr''], w)),
      fs_unlink = (\<lambda>p w. (Inr (), w)),
      tmp_dir = (\<lambda>w. (Inr (js ''/tmp/d''), w)),
      tmp_file = (\<lambda>w. (Inr (js ''/tmp/f''), w)),
      openssl = demo_openssl subject checkend enddate verify,
      opensslInstalled = (\<lambda>w. (True, w)),
      listDevices = (\<lambda>client w. (Inr (map fst pulls), w)),
      androidUtil_push = (\<lambda>client device app path contents w. (Inr (), w)),
      androidUtil_pull = (\<lambda>client device app path w. (demo_pull pulls device, w)),
      iosUtil_targets = (\<lambda>idb physical w. (Inr (map fst pulls), w)),
      iosUtil_targets0 = (\<lambda>w. (Inr (map fst pulls), w)),
      iosUtil_push = (\<lambda>udid file bundle dest idb w. (Inr (), w)),
      iosUtil_pull = (\<lambda>udid file bundle dir idb w.
                        (case demo_pull pulls udid of Inl e \<Rightarrow> Inl e | Inr _ \<Rightarrow> Inr (), w)),
      zip_directory = (\<lambda>src dst w. (Inr dst, w)),
      graph_post = (\<lambda>ms endpoint file device w. (post, w))\<rparr>"

definition demo_provider :: provider where
  "demo_provider =
     \<lparr>config = \<lparr>idbPath = js ''/usr/local/bin/idb'', enableAndroid = True, enableIOS = True,
                 androidHome = js ''/opt/android'', enablePhysicalIOS = True\<rparr>,
      adb_slot = Some AdbClient,
      certificateSetup = Inr ()\<rparr>"

definition demo_provider_legacy :: provider_legacy where
  "demo_provider_legacy =
     \<lparr>store_idbPath = js ''/usr/local/bin/idb'', adb_promise = Inr AdbClient,
      certificateSetup_promise = Inr ()\<rparr>"

definition start :: "unit state" where
  "start = \<lparr>trace = [], ext = ()\<rparr>"

section \<open>Notions of the specification\<close>

text \<open>
  The allow-list of the specification in its own words: word characters, dots, hyphens
  and underscores.
\<close>

definition allowed_char :: "jschar \<Rightarrow> bool" where
  "allowed_char c = (isWordChar c \<or> c = cu CHR ''.'' \<or> c = cu CHR ''-'' \<or> c = cu CHR ''_'')"

text \<open>
  What \<^verbatim>\<open>x509SubjectCNRegex\<close> says, read off the pattern \<^verbatim>\<open>/[=,]\s*CN=([^,]*)(,.*)?$/\<close> and not
  off the matcher above: a match begins with \<^verbatim>\<open>=\<close> or a comma, then white space, then
  \<^verbatim>\<open>CN=\<close>, then the captured text, which has no comma, and ends with the input or goes
  on with a comma and a rest without line terminator. \<open>leftmost_cn s cn\<close>: \<open>cn\<close> is
  captured at the first position of \<open>s\<close> where a match begins.
\<close>

definition cn_match_at :: "jsstring \<Rightarrow> jsstring \<Rightarrow> bool" where
  "cn_match_at s cn =
     (\<exists>sep ws rest.
        s = sep # ws @ js ''CN='' @ cn @ rest
        \<and> (sep = cu CHR ''='' \<or> sep = cu CHR '','')
        \<and> list_all isWhiteSpace ws
        \<and> list_all (\<lambda>c. c \<noteq> cu CHR '','') cn
        \<and> (rest = [] \<or> (\<exists>t. rest = cu CHR '','' # t \<and> list_all (\<lambda>c. \<not> isLineTerminator c) t)))"

definition leftmost_cn :: "jsstring \<Rightarrow> jsstring \<Rightarrow> bool" where
  "leftmost_cn s cn =
     (\<exists>i. i \<le> length s \<and> cn_match_at (drop i s) cn
          \<and> (\<forall>j<i. \<forall>other. \<not> cn_match_at (drop j s) other))"

text \<open>
  The state of \<^verbatim>\<open>ensureServerCertExists\<close> once the three files were found, and the
  warning it logs before it generates a new server certificate.
\<close>

definition after_existence_checks :: "'w env \<Rightarrow> 'w state \<Rightarrow> 'w \<Rightarrow> 'w state" where
  "after_existence_checks env s w =
     s\<lparr>ext := w,
       trace := trace s @ [Call (FsPathExists (serverKey env)) True,
                           Call (FsPathExists (serverCert env)) True,
                           Call (FsPathExists (caCert env)) True]\<rparr>"

definition not_all_valid :: "error \<Rightarrow> event" where
  "not_all_valid e = Console Warn [Text (js ''Not all certs are valid, generating new ones''), Thrown e]"

text \<open>
  The calls of \<^verbatim>\<open>ensureServerCertExists\<close> up to the chain verification when the files exist
  and the quick expiry check passes (\<open>answered\<close>: the verification command resolved), and
  what \<^verbatim>\<open>generateServerCertificate\<close> does once the authority is there: the warning, a new
  key, a new request, and the certificate signed with the CA key (\<open>ok\<close>: the signing
  resolved).
\<close>

definition checked_events :: "'w env \<Rightarrow> bool \<Rightarrow> event list" where
  "checked_events env answered =
     [Call (FsPathExists (serverKey env)) True,
      Call (FsPathExists (serverCert env)) True,
      Call (FsPathExists (caCert env)) True,
      Call (FsPathExists (serverCert env)) True,
      Call (Openssl (X509_checkend (24 * 60 * 60) (serverCert env))) True,
      Call (Openssl (Verify (caCert env) (serverCert env))) answered]"

definition regeneration_events :: "'w env \<Rightarrow> bool \<Rightarrow> event list" where
  "regeneration_events env ok =
     [Console Warn [Text (js ''Creating new server cert''), Text (js ''CertificateProvider'')],
      Call (Openssl (Genrsa (serverKey env))) True,
      Call (Openssl (Req_new (serverKey env) (serverCsr env) serverSubject)) True,
      Call (Openssl (X509_sign_out (serverCsr env) (caCert env) (caKey env) (serverSrl env)
                       (serverCert env))) ok]"

text \<open>The calls that reach a device or list devices, and those of the upload step.\<close>

fun device_request :: "request \<Rightarrow> bool" where
  "device_request ListDevices = True"
| "device_request (AndroidPush _ _ _ _) = True"
| "device_request (AndroidPull _ _ _) = True"
| "device_request (IosTargets _ _) = True"
| "device_request IosTargets0 = True"
| "device_request (IosPush _ _ _ _ _) = True"
| "device_request (IosPull _ _ _ _ _) = True"
| "device_request _ = False"

fun device_event :: "event \<Rightarrow> bool" where
  "device_event (Call r _) = device_request r"
| "device_event _ = False"

fun upload_event :: "event \<Rightarrow> bool" where
  "upload_event (Call (GraphPost _ _ _ _) _) = True"
| "upload_event (Call (ZipDirectory _ _) _) = True"
| "upload_event _ = False"

text \<open>
  \<open>adds A m\<close>: whatever \<open>m\<close> does, it only appends to the trace, and every event it
  appends satisfies \<open>A\<close>.
\<close>

definition adds :: "(event \<Rightarrow> bool) \<Rightarrow> ('w, 'a) io \<Rightarrow> bool" where
  "adds A m = (\<forall>s. \<exists>evs. trace (snd (m s)) = trace s @ evs \<and> list_all A evs)"

definition quiet :: "event \<Rightarrow> bool" where
  "quiet ev = (\<not> device_event ev \<and> \<not> upload_event ev)"

text \<open>
  The network exchange. \<open>staged root evs\<close>: both certificates were written into the
  staging folder of the exchange. \<open>archive_events\<close> and \<open>upload_events\<close> are the calls
  of the packaging and of the upload (five minutes are \<open>5 * 60 * 1000\<close> milliseconds),
  with their outcome. \<open>upload_outcome\<close> lists the ways the last step ends: the
  packaging fails; the archive cannot be read; or the staging folder is packaged into
  the archive, the archive is read, and the bytes that were read are posted with the
  device id: then the exchange returns the device id when the post succeeds and the
  rejection of the post when it fails, with the world as the post left it and nothing
  after it but the two reports of its outcome.
\<close>

definition staged :: "jsstring \<Rightarrow> event list \<Rightarrow> bool" where
  "staged root evs =
     (\<exists>ca cert.
        Call (FsWriteFile (root @ js ''/FlipperCerts/'' @ deviceCAcertFile) ca) True \<in> set evs
        \<and> Call (FsWriteFile (root @ js ''/FlipperCerts/'' @ deviceClientCertFile) cert) True
            \<in> set evs)"

definition archive_events :: "jsstring \<Rightarrow> bool \<Rightarrow> event list" where
  "archive_events root ok =
     [Call (ZipDirectory (root @ js ''/FlipperCerts/'') (root @ js ''/certs.zip'')) ok,
      Call (ReportPlatform (js ''www-certs-exchange-zipping-certs'')) ok]"

definition upload_events :: "jsstring \<Rightarrow> jsstring \<Rightarrow> bool \<Rightarrow> event list" where
  "upload_events archive deviceId ok =
     [Call (GraphPost (5 * 60 * 1000) (js ''flipper/certificates'') archive deviceId) ok,
      Call (ReportPlatform (js ''uploadCertificates'')) ok,
      Call (ReportPlatform (js ''www-certs-exchange-uploading-certs'')) ok]"

definition upload_outcome ::
  "'w env \<Rightarrow> jsstring \<Rightarrow> error + jsstring \<Rightarrow> event list \<Rightarrow> 'w state \<Rightarrow> bool" where
  "upload_outcome env root res up s' =
     ((up = archive_events root False \<and> isl res)
      \<or> (up = archive_events root True
             @ [Call (FsReadFile (root @ js ''/certs.zip'')) False,
                Call (ReportPlatform (js ''www-certs-exchange-uploading-certs'')) False]
          \<and> isl res)
      \<or> (\<exists>deviceId zipped archive answer wa wb wc.
            zip_directory env (root @ js ''/FlipperCerts/'') (root @ js ''/certs.zip'') wa
              = (Inr zipped, wb)
            \<and> fs_readFile env (root @ js ''/certs.zip'') wb = (Inr archive, wc)
            \<and> graph_post env (5 * 60 * 1000) (js ''flipper/certificates'') archive deviceId wc
                = (answer, ext s')
            \<and> up = archive_events root True @ Call (FsReadFile (root @ js ''/certs.zip'')) True
                   # upload_events archive deviceId (\<not> isl answer)
            \<and> res = (case answer of Inl e \<Rightarrow> Inl e | Inr _ \<Rightarrow> Inr deviceId)))"

text \<open>
  \<open>shape U m\<close>: the events that \<open>m\<close> adds are quiet ones, then those of the last step;
  either there is no last step and \<open>m\<close> fails, or \<open>U\<close> holds.
\<close>

definition shape ::
  "(error + 'a \<Rightarrow> event list \<Rightarrow> event list \<Rightarrow> 'w state \<Rightarrow> bool) \<Rightarrow> ('w, 'a) io \<Rightarrow> bool" where
  "shape U m =
     (\<forall>s res s'. m s = (res, s') \<longrightarrow>
        (\<exists>pre up. trace s' = trace s @ pre @ up \<and> list_all quiet pre
           \<and> ((up = [] \<and> isl res) \<or> U res pre up s')))"

text \<open>The warning of \<^verbatim>\<open>getTargetAndroidDeviceId\<close> when several devices match.\<close>

definition more_than_one_warning :: "jsstring \<Rightarrow> event" where
  "more_than_one_warning csr =
     Console Warn [Thrown (External (js ''[conn] More than one matching device found for CSR'')),
                   Text csr]"

section \<open>Sanitization\<close>

lemma trim_no_space_ends:
  assumes "s \<noteq> []" "\<not> isWhiteSpace (hd s)" "\<not> isWhiteSpace (last s)"
  shows "trim s = s"
proof -
  from assms have "dropWhile isWhiteSpace s = s"
    by (cases s) auto
  moreover from assms have "dropWhile isWhiteSpace (rev s) = rev s"
    by (cases "rev s") (auto simp: last_rev [symmetric] hd_rev)
  ultimately show ?thesis by (simp add: trim_def)
qed

lemma trim_ends:
  assumes "trim s \<noteq> []"
  shows "\<not> isWhiteSpace (hd (trim s)) \<and> \<not> isWhiteSpace (last (trim s))"
proof -
  let ?a = "dropWhile isWhiteSpace s"
  let ?b = "dropWhile isWhiteSpace (rev ?a)"
  from assms have b: "?b \<noteq> []" by (simp add: trim_def)
  then have hb: "\<not> isWhiteSpace (hd ?b)" by (rule hd_dropWhile)
  have a: "?a \<noteq> []"
  proof
    assume "?a = []"
    then have "?b = []" by (simp del: dropWhile_eq_Nil_conv)
    with b show False by contradiction
  qed
  then have ha: "\<not> isWhiteSpace (hd ?a)" by (rule hd_dropWhile)
  have "last (trim s) = hd ?b" using b by (simp add: trim_def last_rev)
  moreover have "hd (trim s) = hd ?a"
  proof -
    have "\<exists>x \<in> set (rev ?a). \<not> isWhiteSpace x" using b by (auto simp: dropWhile_eq_Nil_conv)
    then obtain ys where "rev ?a = takeWhile isWhiteSpace (rev ?a) @ ?b" by simp
    then have "?a = rev ?b @ rev (takeWhile isWhiteSpace (rev ?a))"
      by (metis rev_append rev_rev_ident)
    then have "hd ?a = hd (rev ?b)" using b by (metis hd_append2 rev_is_Nil_conv)
    then show ?thesis by (simp add: trim_def)
  qed
  ultimately show ?thesis using ha hb by simp
qed

lemma trim_idem: "trim (trim s) = trim s"
proof (cases "trim s = []")
  case True
  have "trim [] = []" by (simp add: trim_def)
  with True show ?thesis by simp
next
  case False
  with trim_ends [OF False] show ?thesis by (intro trim_no_space_ends) auto
qed

lemma set_trim: "set (trim s) \<subseteq> set s"
proof -
  have "set (trim s) \<subseteq> set (dropWhile isWhiteSpace s)"
    unfolding trim_def set_rev using set_dropWhileD by fastforce
  also have "\<dots> \<subseteq> set s" using set_dropWhileD by fastforce
  finally show ?thesis .
qed

lemma trim_space_prefix:
  assumes "list_all isWhiteSpace pre"
  shows "trim (pre @ s) = trim s"
  using assms by (simp add: trim_def dropWhile_append2 list_all_iff)

lemma trim_space_suffix:
  assumes "list_all isWhiteSpace post"
  shows "trim (s @ post) = trim s"
proof (cases "dropWhile isWhiteSpace s = []")
  case True
  then have "list_all isWhiteSpace (s @ post)"
    using assms by (auto simp: dropWhile_eq_Nil_conv list_all_iff)
  then have "dropWhile isWhiteSpace (s @ post) = []"
    by (simp add: dropWhile_eq_Nil_conv list_all_iff)
  with True show ?thesis by (simp add: trim_def del: dropWhile_eq_Nil_conv)
next
  case False
  then obtain x where "x \<in> set s" "\<not> isWhiteSpace x"
    by (auto simp: dropWhile_eq_Nil_conv)
  then have "dropWhile isWhiteSpace (s @ post) = dropWhile isWhiteSpace s @ post"
    by (rule dropWhile_append1)
  moreover have "dropWhile isWhiteSpace (rev post @ t) = dropWhile isWhiteSpace t" for t
    using assms by (intro dropWhile_append2) (simp add: list_all_iff)
  ultimately show ?thesis by (simp add: trim_def)
qed

text \<open>
  C9. Sanitization is idempotent; white space added before or after the input (carriage
  returns included) and a carriage return inserted anywhere do not change the result.
\<close>

theorem santitizeString_idempotent_invariant:
  "santitizeString (santitizeString x) = santitizeString x
   \<and> (list_all isWhiteSpace pre \<and> list_all isWhiteSpace post
        \<longrightarrow> santitizeString (pre @ x @ post) = santitizeString x)
   \<and> santitizeString (a @ 0x0D # b) = santitizeString (a @ b)"
proof (intro conjI impI)
  let ?f = "filter (\<lambda>c. c \<noteq> (0x0D :: jschar))"
  have "?f (trim (?f x)) = trim (?f x)"
    using set_trim [of "?f x"] by (auto simp: filter_id_conv)
  then show "santitizeString (santitizeString x) = santitizeString x"
    by (simp add: santitizeString_def trim_idem)
next
  assume "list_all isWhiteSpace pre \<and> list_all isWhiteSpace post"
  then have "list_all isWhiteSpace (filter (\<lambda>c. c \<noteq> 0x0D) pre)"
    and "list_all isWhiteSpace (filter (\<lambda>c. c \<noteq> 0x0D) post)"
    by (auto simp: list_all_iff)
  then show "santitizeString (pre @ x @ post) = santitizeString x"
    using trim_space_prefix trim_space_suffix
    by (simp add: santitizeString_def append_assoc [symmetric] del: append_assoc)
next
  show "santitizeString (a @ 0x0D # b) = santitizeString (a @ b)"
    by (simp add: santitizeString_def)
qed

theorem santitizeString_idempotent_invariant_witness:
  "list_all isWhiteSpace [0x20, 0x0D] \<and> list_all isWhiteSpace [0x0A, 0x09]
   \<and> santitizeString ([0x20, 0x0D] @ js ''a b'' @ [0x0A, 0x09]) = santitizeString (js ''a b'')
   \<and> santitizeString (santitizeString (js ''a b'')) = santitizeString (js ''a b'')
   \<and> santitizeString (js ''a'' @ 0x0D # js ''b'') = js ''ab''"
  using santitizeString_idempotent_invariant
    [of "js ''a b''" "[0x20, 0x0D]" "[0x0A, 0x09]" "js ''a''" "js ''b''"]
  by (simp add: santitizeString_def trim_def js_def cu_def isWhiteSpace_def isLineTerminator_def)

section \<open>Evaluation\<close>

lemmas io_defs = io_bind_def io_return_def io_throw_def io_catch_def call_def call_total_def
  console_def emit_def promise_all_def io_settle_def io_await_def reportPlatformFailures_def

lemmas str_defs = js_def cu_def starts_with_def isWhiteSpace_def isLineTerminator_def isWordChar_def

section \<open>The allow-list\<close>

lemma class_matches_server: "class_matches allowedAppNameRegex c = allowed_char c"
  by (auto simp: class_matches_def allowedAppNameRegex_def allowed_char_def isWordChar_def cu_def)

lemma class_matches_legacy: "class_matches allowedAppNameRegex_legacy c = allowed_char c"
  by (auto simp: class_matches_def allowedAppNameRegex_legacy_def allowed_char_def isWordChar_def
      cu_def)

lemma matches_server:
  "matches_class_plus allowedAppNameRegex s = (s \<noteq> [] \<and> list_all allowed_char s)"
  by (simp add: matches_class_plus_def class_matches_server [abs_def])

lemma matches_legacy:
  "matches_class_plus allowedAppNameRegex_legacy s = (s \<noteq> [] \<and> list_all allowed_char s)"
  by (simp add: matches_class_plus_def class_matches_legacy [abs_def])

lemma extract_legacy_same: "extractAppNameFromCSR_legacy env csr = extractAppNameFromCSR env csr"
  by (rule ext)
    (simp add: extractAppNameFromCSR_legacy_def extractAppNameFromCSR_def matches_server
      matches_legacy io_bind_def io_return_def io_throw_def
      split: prod.splits sum.splits option.splits)

text \<open>
  C10. \<^verbatim>\<open>/^[\w._-]+$/\<close> and \<^verbatim>\<open>/^[\w.-]+$/\<close> accept the same strings, and
  \<^verbatim>\<open>extractAppNameFromCSR\<close> is the same function in the two providers.
\<close>

theorem allowedAppNameRegex_variants_agree:
  "matches_class_plus allowedAppNameRegex_legacy name = matches_class_plus allowedAppNameRegex name
   \<and> extractAppNameFromCSR_legacy env csr = extractAppNameFromCSR env csr"
  by (simp add: matches_server matches_legacy extract_legacy_same)

section \<open>The empty request\<close>

text \<open>
  C8. A request whose sanitized form is empty is rejected with the empty-request error,
  in both providers, and the state is the one the call started in: nothing was
  generated, delivered or asked of a device.
\<close>

theorem empty_csr_rejected_first:
  "santitizeString unsanitizedCsr = [] \<Longrightarrow>
     processCertificateSigningRequest env this unsanitizedCsr os appDirectory medium s
       = (Inl (EmptyCsr os), s)
     \<and> processCertificateSigningRequest_legacy env this' unsanitizedCsr os appDirectory medium s
       = (Inl (EmptyCsr os), s)"
  by (simp add: processCertificateSigningRequest_def processCertificateSigningRequest_legacy_def
      io_throw_def)

theorem empty_csr_rejected_first_witness:
  "santitizeString [0x20, 0x0D, 0x0A] = []
   \<and> processCertificateSigningRequest (demo_env [] (Inr []) (Inr []) (Inr []) [] (Inr ()))
        demo_provider [0x20, 0x0D, 0x0A] (js ''Android'') (js ''/data/'') FS_ACCESS start
       = (Inl (EmptyCsr (js ''Android'')), start)
   \<and> processCertificateSigningRequest_legacy (demo_env [] (Inr []) (Inr []) (Inr []) [] (Inr ()))
        demo_provider_legacy [0x20, 0x0D, 0x0A] (js ''Android'') (js ''/data/'') FS_ACCESS start
       = (Inl (EmptyCsr (js ''Android'')), start)"
proof -
  have h: "santitizeString [0x20, 0x0D, 0x0A] = []"
    by (simp add: santitizeString_def trim_def str_defs)
  from empty_csr_rejected_first
    [OF h, where env = "demo_env [] (Inr []) (Inr []) (Inr []) [] (Inr ())"
      and this = demo_provider and this' = demo_provider_legacy and s = start
      and os = "js ''Android''" and medium = FS_ACCESS and appDirectory = "js ''/data/''"] h
  show ?thesis by simp
qed

lemma demo_env_sel:
  "getFilePath (demo_env subject checkend enddate verify pulls post) = (\<lambda>name. js ''/home/u/.flipper/certs/'' @ name)"
  "path_resolve (demo_env subject checkend enddate verify pulls post) = demo_resolve"
  "path_join (demo_env subject checkend enddate verify pulls post) = demo_resolve"
  "date_now (demo_env subject checkend enddate verify pulls post) = (\<lambda>w. (1700000000000, w))"
  "uuid (demo_env subject checkend enddate verify pulls post) = (\<lambda>w. (js ''0f8fad5b-d9cb-469f-a165-70867728950e'', w))"
  "fs_pathExists (demo_env subject checkend enddate verify pulls post) = (\<lambda>p w. (True, w))"
  "fs_mkdir (demo_env subject checkend enddate verify pulls post) = (\<lambda>p w. (Inr (), w))"
  "fs_writeFile (demo_env subject checkend enddate verify pulls post) = (\<lambda>p c w. (Inr (), w))"
  "fs_readFile (demo_env subject checkend enddate verify pulls post) =
     (\<lambda>p w. (Inr (if p = js ''/tmp/d/certs.zip'' then js ''PK'' else demo_csr), w))"
  "settled_first (demo_env subject checkend enddate verify pulls post) = (\<lambda>errors. 0)"
  "fs_readdir (demo_env subject checkend enddate verify pulls post) = (\<lambda>p w. (Inr [js ''app.csr''], w))"
  "fs_unlink (demo_env subject checkend enddate verify pulls post) = (\<lambda>p w. (Inr (), w))"
  "tmp_dir (demo_env subject checkend enddate verify pulls post) = (\<lambda>w. (Inr (js ''/tmp/d''), w))"
  "tmp_file (demo_env subject checkend enddate verify pulls post) = (\<lambda>w. (Inr (js ''/tmp/f''), w))"
  "openssl (demo_env subject checkend enddate verify pulls post) = demo_openssl subject checkend enddate verify"
  "opensslInstalled (demo_env subject checkend enddate verify pulls post) = (\<lambda>w. (True, w))"
  "listDevices (demo_env subject checkend enddate verify pulls post) = (\<lambda>client w. (Inr (map fst pulls), w))"
  "androidUtil_push (demo_env subject checkend enddate verify pulls post) = (\<lambda>client device app path contents w. (Inr (), w))"
  "androidUtil_pull (demo_env subject checkend enddate verify pulls post) = (\<lambda>client device app path w. (demo_pull pulls device, w))"
  "iosUtil_targets (demo_env subject checkend enddate verify pulls post) = (\<lambda>idb physical w. (Inr (map fst pulls), w))"
  "iosUtil_targets0 (demo_env subject checkend enddate verify pulls post) = (\<lambda>w. (Inr (map fst pulls), w))"
  "iosUtil_push (demo_env subject checkend enddate verify pulls post) = (\<lambda>udid file bundle dest idb w. (Inr (), w))"
  "iosUtil_pull (demo_env subject checkend enddate verify pulls post) =
     (\<lambda>udid file bundle dir idb w. (case demo_pull pulls udid of Inl e \<Rightarrow> Inl e | Inr _ \<Rightarrow> Inr (), w))"
  "zip_directory (demo_env subject checkend enddate verify pulls post) = (\<lambda>src dst w. (Inr dst, w))"
  "graph_post (demo_env subject checkend enddate verify pulls post) = (\<lambda>ms endpoint file device w. (post, w))"
  by (simp_all add: demo_env_def)

lemma demo_date_parse:
  "date_parse (demo_env subject checkend enddate verify pulls post) d =
     (if d = js ''Jan 1 00:00:00 2040 GMT'' then Some 2208988800000
      else if d = js ''Jan 1 00:00:00 2020 GMT'' then Some 1577836800000 else None)"
  by (simp add: demo_env_def)

lemmas demo_defs = demo_env_sel demo_openssl_def demo_pull_def demo_resolve_def demo_provider_def
  demo_provider_legacy_def start_def demo_csr_def

lemmas run_defs = processCertificateSigningRequest_def ensureOpenSSLIsAvailable_def getCACertificate_def
  deployOrStageFileForMobileApp_def generateClientCertificate_def extractAppNameFromCSR_def writeToTempFile_def
  uploadFiles_def getTargetDeviceId_def x509SubjectCNRegex_def x509SubjectCN_at_def matches_class_plus_def
  class_matches_def allowedAppNameRegex_def santitizeString_def trim_def Let_def

lemmas authority_defs = ensureServerCertExists_def generateServerCertificate_def
  ensureCertificateAuthorityExists_def generateCertificateAuthority_def checkCertIsValid_def
  verifyServerCertWasIssuedByCA_def after_existence_checks_def not_all_valid_def
  minCertExpiryWindowSeconds_def serverKey_def serverCert_def serverCsr_def serverSrl_def
  caKey_def caCert_def caSubject_def serverSubject_def Let_def

lemmas device_defs = getTargetiOSDeviceId_def getTargetAndroidDeviceId_def ios_check_def
  android_check_def iOSDeviceHasMatchingCSR_def androidDeviceHasMatchingCSR_def
  getRelativePathInAppContainer_def adb_def simulatorId_at_def appContainer_at_def
  csrFileName_def santitizeString_def trim_def Let_def

section \<open>The application name\<close>

lemma writeToTempFile_ok:
  "tmp_file env (ext s) = (Inr path, w1) \<Longrightarrow> fs_writeFile env path content w1 = (Inr (), w2) \<Longrightarrow>
   writeToTempFile env content s =
     (Inr path, \<lparr>trace = trace s @ [Call TmpFile True, Call (FsWriteFile path content) True], ext = w2\<rparr>)"
  by (simp add: writeToTempFile_def io_defs)

lemma x509SubjectCN_at_match:
  assumes "x509SubjectCN_at s = Some cn"
  shows "cn_match_at s cn"
proof -
  from assms obtain c s0 where s: "s = c # s0"
    by (cases s) (simp_all add: x509SubjectCN_at_def)
  let ?s1 = "dropWhile isWhiteSpace s0"
  let ?s2 = "drop 3 ?s1"
  let ?s3 = "dropWhile (\<lambda>x. x \<noteq> cu CHR '','') ?s2"
  from assms s have sep: "c = cu CHR ''='' \<or> c = cu CHR '',''"
    and st: "starts_with (js ''CN='') ?s1"
    and cn: "cn = takeWhile (\<lambda>x. x \<noteq> cu CHR '','') ?s2"
    and fin: "?s3 = [] \<or> list_all (\<lambda>x. \<not> isLineTerminator x) (tl ?s3)"
    by (auto simp add: x509SubjectCN_at_def Let_def split: if_splits)
  from st have "take 3 ?s1 = js ''CN=''" by (simp add: starts_with_def js_def numeral_3_eq_3)
  then have s1: "?s1 = js ''CN='' @ ?s2" by (metis append_take_drop_id)
  have s0: "s0 = takeWhile isWhiteSpace s0 @ ?s1" by simp
  have s2: "?s2 = cn @ ?s3" by (simp add: cn)
  have ws: "list_all isWhiteSpace (takeWhile isWhiteSpace s0)"
    by (auto simp: list_all_iff dest: set_takeWhileD)
  have nc: "list_all (\<lambda>c. c \<noteq> cu CHR '','') cn"
    by (auto simp: cn list_all_iff dest: set_takeWhileD)
  have rest: "?s3 = [] \<or> (\<exists>t. ?s3 = cu CHR '','' # t \<and> list_all (\<lambda>c. \<not> isLineTerminator c) t)"
  proof (cases "?s3 = []")
    case False
    then have "\<not> (hd ?s3 \<noteq> cu CHR '','')" by (rule hd_dropWhile)
    with False have "?s3 = cu CHR '','' # tl ?s3" by (cases ?s3) simp_all
    with fin False show ?thesis by blast
  qed simp
  have "s = c # takeWhile isWhiteSpace s0 @ js ''CN='' @ cn @ ?s3"
    using s s0 s1 s2 by metis
  with sep ws nc rest show ?thesis unfolding cn_match_at_def by blast
qed

lemma cn_match_x509SubjectCN_at:
  assumes "cn_match_at s cn"
  shows "x509SubjectCN_at s = Some cn"
proof -
  from assms obtain sep ws rest where s: "s = sep # ws @ js ''CN='' @ cn @ rest"
    and sep: "sep = cu CHR ''='' \<or> sep = cu CHR '',''"
    and ws: "list_all isWhiteSpace ws"
    and nc: "list_all (\<lambda>c. c \<noteq> cu CHR '','') cn"
    and rest: "rest = [] \<or> (\<exists>t. rest = cu CHR '','' # t \<and> list_all (\<lambda>c. \<not> isLineTerminator c) t)"
    unfolding cn_match_at_def by blast
  have d1: "dropWhile isWhiteSpace (ws @ js ''CN='' @ cn @ rest) = js ''CN='' @ cn @ rest"
    using ws by (simp add: list_all_iff dropWhile_append2 js_def cu_def isWhiteSpace_def
        isLineTerminator_def)
  have st: "starts_with (js ''CN='') (js ''CN='' @ cn @ rest)"
    by (simp add: starts_with_def)
  have d3: "drop 3 (js ''CN='' @ cn @ rest) = cn @ rest"
    by (simp add: js_def)
  have tw: "takeWhile (\<lambda>x. x \<noteq> cu CHR '','') (cn @ rest) = cn"
    using nc rest by (auto simp: list_all_iff takeWhile_append2 intro!: takeWhile_eq_all_conv [THEN iffD2])
  have dw: "dropWhile (\<lambda>x. x \<noteq> cu CHR '','') (cn @ rest) = rest"
    using nc rest by (auto simp: list_all_iff dropWhile_append2)
  show ?thesis
    unfolding x509SubjectCN_at_def s list.case Let_def d1 d3 tw dw
    using sep st rest by auto
qed

lemma x509SubjectCN_at_iff: "(x509SubjectCN_at s = Some cn) = cn_match_at s cn"
  using x509SubjectCN_at_match cn_match_x509SubjectCN_at by blast

lemma x509SubjectCN_at_None_iff: "(x509SubjectCN_at s = None) = (\<forall>cn. \<not> cn_match_at s cn)"
  using x509SubjectCN_at_iff [of s] by (cases "x509SubjectCN_at s") auto

lemma exec_first_Some_iff:
  "(exec_first at s = Some r)
     = (\<exists>i. i \<le> length s \<and> at (drop i s) = Some r \<and> (\<forall>j<i. at (drop j s) = None))"
proof (induction s)
  case Nil
  show ?case by auto
next
  case (Cons c s)
  show ?case
  proof (cases "at (c # s)")
    case (Some r')
    have "(\<exists>i. i \<le> length (c # s) \<and> at (drop i (c # s)) = Some r
             \<and> (\<forall>j<i. at (drop j (c # s)) = None)) = (r' = r)"
    proof
      assume "\<exists>i. i \<le> length (c # s) \<and> at (drop i (c # s)) = Some r
             \<and> (\<forall>j<i. at (drop j (c # s)) = None)"
      then obtain i where i: "at (drop i (c # s)) = Some r" "\<forall>j<i. at (drop j (c # s)) = None"
        by blast
      have "i = 0"
      proof (rule ccontr)
        assume "i \<noteq> 0"
        with i(2) have "at (drop 0 (c # s)) = None" by blast
        with Some show False by simp
      qed
      with i(1) Some show "r' = r" by simp
    next
      assume "r' = r"
      with Some have "0 \<le> length (c # s) \<and> at (drop 0 (c # s)) = Some r
             \<and> (\<forall>j<0. at (drop j (c # s)) = None)" by simp
      then show "\<exists>i. i \<le> length (c # s) \<and> at (drop i (c # s)) = Some r
             \<and> (\<forall>j<i. at (drop j (c # s)) = None)" by blast
    qed
    with Some show ?thesis by simp
  next
    case None
    have "(\<exists>i. i \<le> length (c # s) \<and> at (drop i (c # s)) = Some r
             \<and> (\<forall>j<i. at (drop j (c # s)) = None))
        = (\<exists>i. i \<le> length s \<and> at (drop i s) = Some r \<and> (\<forall>j<i. at (drop j s) = None))"
    proof
      assume "\<exists>i. i \<le> length (c # s) \<and> at (drop i (c # s)) = Some r
             \<and> (\<forall>j<i. at (drop j (c # s)) = None)"
      then obtain i where i: "i \<le> length (c # s)" "at (drop i (c # s)) = Some r"
        "\<forall>j<i. at (drop j (c # s)) = None"
        by blast
      from i(2) None have "i \<noteq> 0" by (cases i) auto
      then obtain k where k: "i = Suc k" by (cases i) auto
      have "\<forall>j<k. at (drop j s) = None"
      proof (intro allI impI)
        fix j assume "j < k"
        then have "Suc j < i" by (simp add: k)
        with i(3) have "at (drop (Suc j) (c # s)) = None" by blast
        then show "at (drop j s) = None" by simp
      qed
      with i k show "\<exists>i. i \<le> length s \<and> at (drop i s) = Some r \<and> (\<forall>j<i. at (drop j s) = None)"
        by (intro exI [of _ k]) simp
    next
      assume "\<exists>i. i \<le> length s \<and> at (drop i s) = Some r \<and> (\<forall>j<i. at (drop j s) = None)"
      then obtain k where k: "k \<le> length s" "at (drop k s) = Some r" "\<forall>j<k. at (drop j s) = None"
        by blast
      have "\<forall>j<Suc k. at (drop j (c # s)) = None"
      proof (intro allI impI)
        fix j assume "j < Suc k"
        then show "at (drop j (c # s)) = None" using None k(3) by (cases j) auto
      qed
      with k show "\<exists>i. i \<le> length (c # s) \<and> at (drop i (c # s)) = Some r
             \<and> (\<forall>j<i. at (drop j (c # s)) = None)"
        by (intro exI [of _ "Suc k"]) simp
    qed
    with None Cons.IH show ?thesis by simp
  qed
qed

lemma exec_first_None_iff:
  "(exec_first at s = None) = (\<forall>i. at (drop i s) = None)"
proof (induction s)
  case Nil
  show ?case by auto
next
  case (Cons c s)
  have "(\<forall>i. at (drop i (c # s)) = None) = (at (c # s) = None \<and> (\<forall>i. at (drop i s) = None))"
  proof
    assume a: "\<forall>i. at (drop i (c # s)) = None"
    then have "at (drop 0 (c # s)) = None" by blast
    moreover have "\<forall>i. at (drop i s) = None"
    proof
      fix i from a have "at (drop (Suc i) (c # s)) = None" by blast
      then show "at (drop i s) = None" by simp
    qed
    ultimately show "at (c # s) = None \<and> (\<forall>i. at (drop i s) = None)" by simp
  next
    assume a: "at (c # s) = None \<and> (\<forall>i. at (drop i s) = None)"
    show "\<forall>i. at (drop i (c # s)) = None"
    proof
      fix i show "at (drop i (c # s)) = None" using a by (cases i) auto
    qed
  qed
  with Cons.IH show ?case by (simp split: option.splits)
qed

lemma x509SubjectCNRegex_leftmost:
  "(x509SubjectCNRegex s = Some cn) = leftmost_cn s cn"
  unfolding x509SubjectCNRegex_def leftmost_cn_def exec_first_Some_iff
  by (simp add: x509SubjectCN_at_iff x509SubjectCN_at_None_iff)

lemma x509SubjectCNRegex_none:
  "(x509SubjectCNRegex s = None) = (\<forall>i cn. \<not> cn_match_at (drop i s) cn)"
  unfolding x509SubjectCNRegex_def exec_first_None_iff
  by (simp add: x509SubjectCN_at_None_iff)

lemma exec_first_skip:
  assumes "\<And>c s. c \<in> set pre \<Longrightarrow> at (c # s) = None"
  shows "exec_first at (pre @ c # s) = exec_first at (c # s)"
  using assms by (induction pre) simp_all

lemma x509SubjectCNRegex_first_rdn:
  assumes "list_all (\<lambda>c. c \<noteq> cu CHR ''='' \<and> c \<noteq> cu CHR '','') pre"
    and "list_all isWhiteSpace ws"
    and "list_all (\<lambda>c. c \<noteq> cu CHR '','') cn"
    and "rest = [] \<or> (\<exists>t. rest = cu CHR '','' # t \<and> list_all (\<lambda>c. \<not> isLineTerminator c) t)"
  shows "x509SubjectCNRegex (pre @ cu CHR ''='' # ws @ js ''CN='' @ cn @ rest) = Some cn"
proof -
  have "x509SubjectCN_at (c # s) = None" if "c \<in> set pre" for c s
    using that assms(1) by (auto simp: x509SubjectCN_at_def list_all_iff)
  then have "x509SubjectCNRegex (pre @ cu CHR ''='' # ws @ js ''CN='' @ cn @ rest)
      = exec_first x509SubjectCN_at (cu CHR ''='' # ws @ js ''CN='' @ cn @ rest)"
    unfolding x509SubjectCNRegex_def by (rule exec_first_skip)
  moreover have "cn_match_at (cu CHR ''='' # ws @ js ''CN='' @ cn @ rest) cn"
    unfolding cn_match_at_def using assms(2-4) by blast
  then have "x509SubjectCN_at (cu CHR ''='' # ws @ js ''CN='' @ cn @ rest) = Some cn"
    by (rule cn_match_x509SubjectCN_at)
  ultimately show ?thesis by simp
qed


text \<open>
  C2 (as amended). When the temporary file is written, the toolkit prints the subject and
  the file is removed, \<^verbatim>\<open>extractAppNameFromCSR\<close> decides on the text that
  \<^verbatim>\<open>x509SubjectCNRegex\<close> captures in the trimmed subject line, in both providers. That
  text is the one captured at the leftmost position where \<^verbatim>\<open>=\<close> or a comma is followed
  by optional white space, \<^verbatim>\<open>CN=\<close>, a run without comma, and then the end of the line
  or a comma with no line terminator after it. Without such a position the call fails
  with the malformed-subject error; a captured text that is not empty and has allowed
  characters only is returned as it is; an empty one, or one with a character that is
  not allowed, fails with the disallowed-name error. In particular, when the first
  \<^verbatim>\<open>=\<close> or comma of the subject line is the \<^verbatim>\<open>=\<close> before \<^verbatim>\<open>CN=name\<close> and the name ends
  at the end of the line or at a comma, the decision is taken on that name.
\<close>

theorem extractAppNameFromCSR_outcomes:
  assumes "tmp_file env (ext s) = (Inr path, w1)"
    and "fs_writeFile env path csr w1 = (Inr (), w2)"
    and "openssl env (Req_subject path) w2 = (Inr subject, w3)"
    and "fs_unlink env path w3 = (Inr (), w4)"
  shows "(x509SubjectCNRegex (trim subject) = None \<longrightarrow>
           fst (extractAppNameFromCSR env csr s) = Inl (CannotExtractCN subject)
           \<and> fst (extractAppNameFromCSR_legacy env csr s) = Inl (CannotExtractCN subject))
       \<and> (x509SubjectCNRegex (trim subject) = Some cn \<and> cn \<noteq> [] \<and> list_all allowed_char cn \<longrightarrow>
           fst (extractAppNameFromCSR env csr s) = Inr cn
           \<and> fst (extractAppNameFromCSR_legacy env csr s) = Inr cn)
       \<and> (x509SubjectCNRegex (trim subject) = Some cn \<and> (cn = [] \<or> \<not> list_all allowed_char cn) \<longrightarrow>
           fst (extractAppNameFromCSR env csr s) = Inl (DisallowedAppName cn)
           \<and> fst (extractAppNameFromCSR_legacy env csr s) = Inl (DisallowedAppName cn))
       \<and> ((x509SubjectCNRegex (trim subject) = Some cn) = leftmost_cn (trim subject) cn)
       \<and> ((x509SubjectCNRegex (trim subject) = None)
            = (\<forall>i other. \<not> cn_match_at (drop i (trim subject)) other))
       \<and> (trim subject = pre @ cu CHR ''='' # ws @ js ''CN='' @ name @ rest
            \<and> list_all (\<lambda>c. c \<noteq> cu CHR ''='' \<and> c \<noteq> cu CHR '','') pre
            \<and> list_all isWhiteSpace ws
            \<and> list_all (\<lambda>c. c \<noteq> cu CHR '','') name
            \<and> (rest = [] \<or> (\<exists>t. rest = cu CHR '','' # t
                              \<and> list_all (\<lambda>c. \<not> isLineTerminator c) t)) \<longrightarrow>
           fst (extractAppNameFromCSR env csr s)
             = (if name \<noteq> [] \<and> list_all allowed_char name then Inr name
                else Inl (DisallowedAppName name))
           \<and> fst (extractAppNameFromCSR_legacy env csr s)
             = (if name \<noteq> [] \<and> list_all allowed_char name then Inr name
                else Inl (DisallowedAppName name)))"
proof -
  have run: "fst (extractAppNameFromCSR env csr s) =
      (case x509SubjectCNRegex (trim subject) of
         None \<Rightarrow> Inl (CannotExtractCN subject)
       | Some appName \<Rightarrow>
           if appName \<noteq> [] \<and> list_all allowed_char appName then Inr appName
           else Inl (DisallowedAppName appName))"
    using assms
    by (simp add: extractAppNameFromCSR_def writeToTempFile_def matches_server io_defs
        split: option.splits)
  have first: "x509SubjectCNRegex (trim subject) = Some name"
    if "trim subject = pre @ cu CHR ''='' # ws @ js ''CN='' @ name @ rest"
      "list_all (\<lambda>c. c \<noteq> cu CHR ''='' \<and> c \<noteq> cu CHR '','') pre"
      "list_all isWhiteSpace ws" "list_all (\<lambda>c. c \<noteq> cu CHR '','') name"
      "rest = [] \<or> (\<exists>t. rest = cu CHR '','' # t \<and> list_all (\<lambda>c. \<not> isLineTerminator c) t)"
    unfolding that(1) using that(2-5) by (rule x509SubjectCNRegex_first_rdn)
  have a: "x509SubjectCNRegex (trim subject) = None \<longrightarrow>
           fst (extractAppNameFromCSR env csr s) = Inl (CannotExtractCN subject)
           \<and> fst (extractAppNameFromCSR_legacy env csr s) = Inl (CannotExtractCN subject)"
    by (simp add: extract_legacy_same run)
  have b: "x509SubjectCNRegex (trim subject) = Some cn \<and> cn \<noteq> [] \<and> list_all allowed_char cn \<longrightarrow>
           fst (extractAppNameFromCSR env csr s) = Inr cn
           \<and> fst (extractAppNameFromCSR_legacy env csr s) = Inr cn"
    by (simp add: extract_legacy_same run)
  have c: "x509SubjectCNRegex (trim subject) = Some cn \<and> (cn = [] \<or> \<not> list_all allowed_char cn) \<longrightarrow>
           fst (extractAppNameFromCSR env csr s) = Inl (DisallowedAppName cn)
           \<and> fst (extractAppNameFromCSR_legacy env csr s) = Inl (DisallowedAppName cn)"
    by (auto simp add: extract_legacy_same run)
  have d: "trim subject = pre @ cu CHR ''='' # ws @ js ''CN='' @ name @ rest
            \<and> list_all (\<lambda>c. c \<noteq> cu CHR ''='' \<and> c \<noteq> cu CHR '','') pre
            \<and> list_all isWhiteSpace ws
            \<and> list_all (\<lambda>c. c \<noteq> cu CHR '','') name
            \<and> (rest = [] \<or> (\<exists>t. rest = cu CHR '','' # t
                              \<and> list_all (\<lambda>c. \<not> isLineTerminator c) t)) \<longrightarrow>
           fst (extractAppNameFromCSR env csr s)
             = (if name \<noteq> [] \<and> list_all allowed_char name then Inr name
                else Inl (DisallowedAppName name))
           \<and> fst (extractAppNameFromCSR_legacy env csr s)
             = (if name \<noteq> [] \<and> list_all allowed_char name then Inr name
                else Inl (DisallowedAppName name))"
  proof (intro impI, elim conjE)
    assume h: "trim subject = pre @ cu CHR ''='' # ws @ js ''CN='' @ name @ rest"
      "list_all (\<lambda>c. c \<noteq> cu CHR ''='' \<and> c \<noteq> cu CHR '','') pre"
      "list_all isWhiteSpace ws" "list_all (\<lambda>c. c \<noteq> cu CHR '','') name"
      "rest = [] \<or> (\<exists>t. rest = cu CHR '','' # t \<and> list_all (\<lambda>c. \<not> isLineTerminator c) t)"
    from first [OF h] show "fst (extractAppNameFromCSR env csr s)
             = (if name \<noteq> [] \<and> list_all allowed_char name then Inr name
                else Inl (DisallowedAppName name))
           \<and> fst (extractAppNameFromCSR_legacy env csr s)
             = (if name \<noteq> [] \<and> list_all allowed_char name then Inr name
                else Inl (DisallowedAppName name))"
      by (simp add: extract_legacy_same run)
  qed
  from a b c d x509SubjectCNRegex_leftmost [of "trim subject" cn]
    x509SubjectCNRegex_none [of "trim subject"]
  show ?thesis by (intro conjI)
qed

theorem extractAppNameFromCSR_outcomes_witness:
  "fst (extractAppNameFromCSR
             (demo_env (js ''subject=CN=com.example.app,O=Sonar'' @ [0x0A]) (Inr []) (Inr []) (Inr []) [] (Inr ()))
             demo_csr start) = Inr (js ''com.example.app'')
   \<and> list_all allowed_char (js ''com.example.app'')
   \<and> x509SubjectCNRegex (trim (js ''subject=CN=com.example.app,O=Sonar'' @ [0x0A])) = Some (js ''com.example.app'')
   \<and> x509SubjectCNRegex (trim (js ''subject=CN=evil;rm -rf'')) = Some (js ''evil;rm -rf'')
   \<and> fst (extractAppNameFromCSR
             (demo_env (js ''subject=CN=evil;rm -rf'') (Inr []) (Inr []) (Inr []) [] (Inr ()))
             demo_csr start) = Inl (DisallowedAppName (js ''evil;rm -rf''))
   \<and> x509SubjectCNRegex (trim (js ''subject=O=Sonar'')) = None
   \<and> fst (extractAppNameFromCSR
             (demo_env (js ''subject=O=Sonar'') (Inr []) (Inr []) (Inr []) [] (Inr ()))
             demo_csr start) = Inl (CannotExtractCN (js ''subject=O=Sonar''))"
proof -
  have shape: "trim (js ''subject=CN=com.example.app,O=Sonar'' @ [0x0A])
      = js ''subject'' @ cu CHR ''='' # [] @ js ''CN='' @ js ''com.example.app'' @ js '',O=Sonar''"
    by (simp add: trim_def str_defs)
  have pre: "list_all (\<lambda>c. c \<noteq> cu CHR ''='' \<and> c \<noteq> cu CHR '','') (js ''subject'')"
    by (simp add: str_defs)
  have nc: "list_all (\<lambda>c. c \<noteq> cu CHR '','') (js ''com.example.app'')"
    by (simp add: str_defs)
  have rest: "js '',O=Sonar'' = cu CHR '','' # js ''O=Sonar''
      \<and> list_all (\<lambda>c. \<not> isLineTerminator c) (js ''O=Sonar'')"
    by (simp add: str_defs)
  have b: "list_all allowed_char (js ''com.example.app'')"
    by (simp add: allowed_char_def str_defs)
  have c: "x509SubjectCNRegex (trim (js ''subject=CN=evil;rm -rf'')) = Some (js ''evil;rm -rf'')"
    by (simp add: x509SubjectCNRegex_def x509SubjectCN_at_def trim_def Let_def str_defs)
  have d: "\<not> list_all allowed_char (js ''evil;rm -rf'')"
    by (simp add: allowed_char_def str_defs)
  have e: "x509SubjectCNRegex (trim (js ''subject=O=Sonar'')) = None"
    by (simp add: x509SubjectCNRegex_def x509SubjectCN_at_def trim_def Let_def str_defs)
  note t = extractAppNameFromCSR_outcomes [where s = start and path = "js ''/tmp/f''" and csr = demo_csr
      and ?w1.0 = "()" and ?w2.0 = "()" and ?w3.0 = "()" and ?w4.0 = "()"]
  note t1 = t [where env = "demo_env (js ''subject=CN=com.example.app,O=Sonar'' @ [0x0A]) (Inr []) (Inr []) (Inr []) [] (Inr ())"
        and subject = "js ''subject=CN=com.example.app,O=Sonar'' @ [0x0A]"
        and pre = "js ''subject''" and ws = "[]" and name = "js ''com.example.app''"
        and rest = "js '',O=Sonar''" and cn = "js ''com.example.app''"]
  have 1: "fst (extractAppNameFromCSR
             (demo_env (js ''subject=CN=com.example.app,O=Sonar'' @ [0x0A]) (Inr []) (Inr []) (Inr []) [] (Inr ()))
             demo_csr start) = Inr (js ''com.example.app'')"
    using t1 shape pre nc rest b
    by (simp add: demo_env_sel demo_openssl_def start_def js_def)
  have a: "x509SubjectCNRegex (trim (js ''subject=CN=com.example.app,O=Sonar'' @ [0x0A])) = Some (js ''com.example.app'')"
    by (simp add: x509SubjectCNRegex_def x509SubjectCN_at_def trim_def Let_def str_defs)
  have 2: "fst (extractAppNameFromCSR
             (demo_env (js ''subject=CN=evil;rm -rf'') (Inr []) (Inr []) (Inr []) [] (Inr ()))
             demo_csr start) = Inl (DisallowedAppName (js ''evil;rm -rf''))"
    using t [where env = "demo_env (js ''subject=CN=evil;rm -rf'') (Inr []) (Inr []) (Inr []) [] (Inr ())"
        and subject = "js ''subject=CN=evil;rm -rf''" and cn = "js ''evil;rm -rf''"] c d
    by (simp add: demo_env_sel demo_openssl_def start_def js_def)
  have 3: "fst (extractAppNameFromCSR
             (demo_env (js ''subject=O=Sonar'') (Inr []) (Inr []) (Inr []) [] (Inr ()))
             demo_csr start) = Inl (CannotExtractCN (js ''subject=O=Sonar''))"
    using t [where env = "demo_env (js ''subject=O=Sonar'') (Inr []) (Inr []) (Inr []) [] (Inr ())"
        and subject = "js ''subject=O=Sonar''"] e
    by (simp add: demo_env_sel demo_openssl_def start_def js_def)
  from a b c e 1 2 3 show ?thesis by simp
qed

text \<open>
  The claim as stated fails in three ways. At the empty Common Name every character is
  allowed, and the call fails. The captured text is not always the Common Name of the
  subject: in \<^verbatim>\<open>CN=good+O=Sonar\<close> the name \<^verbatim>\<open>good\<close> is allowed and the call fails on
  \<^verbatim>\<open>good+O=Sonar\<close>; behind an escaped comma in the value of another attribute,
  \<^verbatim>\<open>O=a\, CN=evil\<close>, the call returns \<^verbatim>\<open>evil\<close>, whether the subject has the Common Name
  \<^verbatim>\<open>good\<close> or none at all.
\<close>

theorem extractAppNameFromCSR_not_the_CN_counterexample:
  "x509SubjectCNRegex (trim (js ''subject=CN='')) = Some []
   \<and> list_all allowed_char []
   \<and> fst (extractAppNameFromCSR
             (demo_env (js ''subject=CN='') (Inr []) (Inr []) (Inr []) [] (Inr ())) demo_csr start)
       = Inl (DisallowedAppName [])
   \<and> fst (extractAppNameFromCSR_legacy
             (demo_env (js ''subject=CN='') (Inr []) (Inr []) (Inr []) [] (Inr ())) demo_csr start)
       = Inl (DisallowedAppName [])
   \<and> list_all allowed_char (js ''good'')
   \<and> fst (extractAppNameFromCSR
             (demo_env (js ''subject=CN=good+O=Sonar'') (Inr []) (Inr []) (Inr []) [] (Inr ()))
             demo_csr start)
       = Inl (DisallowedAppName (js ''good+O=Sonar''))
   \<and> fst (extractAppNameFromCSR
             (demo_env (js ''subject=O=a'' @ [0x5C] @ js '', CN=evil,CN=good'')
                (Inr []) (Inr []) (Inr []) [] (Inr ()))
             demo_csr start)
       = Inr (js ''evil'')
   \<and> fst (extractAppNameFromCSR
             (demo_env (js ''subject=O=a'' @ [0x5C] @ js '', CN=evil'')
                (Inr []) (Inr []) (Inr []) [] (Inr ()))
             demo_csr start)
       = Inr (js ''evil'')"
  by (simp add: extract_legacy_same extractAppNameFromCSR_def writeToTempFile_def x509SubjectCNRegex_def
      x509SubjectCN_at_def matches_class_plus_def class_matches_def allowedAppNameRegex_def
      allowed_char_def trim_def Let_def demo_defs io_defs str_defs)

section \<open>Certificate validity\<close>

text \<open>
  C3 (as amended). Both providers fail when the file is absent. In
  \<^verbatim>\<open>server/utils/CertificateProvider.tsx\<close> a certificate passes when the quick check of
  the toolkit passes, and when the quick check fails the end date printed by the toolkit
  decides: the certificate is valid exactly when the end-date command answers, its
  trimmed output has an \<^verbatim>\<open>=\<close>, the text between the first \<^verbatim>\<open>=\<close> and the next parses as a
  date, and \<open>now + 86400 * 1000 < expiryTimestamp\<close> (milliseconds); otherwise the call
  fails, with the rejection of the command, a type error, the cannot-parse error or the
  expired error. In \<^verbatim>\<open>utils/CertificateProvider.tsx\<close> a failure of the quick check is
  final, and when the quick check passes the end date decides in the same way.
\<close>

theorem checkCertIsValid_outcomes:
  "(fs_pathExists env f (ext s) = (False, w1) \<longrightarrow>
      fst (checkCertIsValid env f s) = Inl (DoesNotExist f)
      \<and> fst (checkCertIsValid_legacy env f s) = Inl (DoesNotExist f))
   \<and> (fs_pathExists env f (ext s) = (True, w1)
        \<and> openssl env (X509_checkend (24 * 60 * 60) f) w1 = (Inr quick, w2) \<longrightarrow>
      fst (checkCertIsValid env f s) = Inr ())
   \<and> (fs_pathExists env f (ext s) = (True, w1)
        \<and> openssl env (X509_checkend (24 * 60 * 60) f) w1 = (Inl e, w2)
        \<and> openssl env (X509_enddate f) w2 = (answer, w3)
        \<and> date_now env w3 = (now, w4) \<longrightarrow>
      fst (checkCertIsValid env f s) =
        (case answer of
           Inl rejection \<Rightarrow> Inl rejection
         | Inr out \<Rightarrow>
             (case split_on (cu CHR ''='') (trim out) of
                label # part # rest \<Rightarrow>
                  (case date_parse env (trim part) of
                     None \<Rightarrow> Inl CannotParseExpiry
                   | Some expiryTimestamp \<Rightarrow>
                       if expiryTimestamp \<le> now + 86400 * 1000 then Inl CertExpired else Inr ())
              | _ \<Rightarrow> Inl TypeError))
      \<and> ((fst (checkCertIsValid env f s) = Inr ()) =
          (\<exists>out label part rest expiryTimestamp.
             answer = Inr out
             \<and> split_on (cu CHR ''='') (trim out) = label # part # rest
             \<and> date_parse env (trim part) = Some expiryTimestamp
             \<and> now + 86400 * 1000 < expiryTimestamp)))
   \<and> (fs_pathExists env f (ext s) = (True, w1)
        \<and> openssl env (X509_checkend (24 * 60 * 60) f) w1 = (Inl e, w2) \<longrightarrow>
      fst (checkCertIsValid_legacy env f s) = Inl e)
   \<and> (fs_pathExists env f (ext s) = (True, w1)
        \<and> openssl env (X509_checkend (24 * 60 * 60) f) w1 = (Inr quick, w2)
        \<and> openssl env (X509_enddate f) w2 = (answer, w3)
        \<and> date_now env w3 = (now, w4) \<longrightarrow>
      fst (checkCertIsValid_legacy env f s) =
        (case answer of
           Inl rejection \<Rightarrow> Inl rejection
         | Inr out \<Rightarrow>
             (case split_on (cu CHR ''='') (trim out) of
                label # part # rest \<Rightarrow>
                  (case date_parse env (trim part) of
                     None \<Rightarrow> Inl CannotParseExpiry
                   | Some expiryTimestamp \<Rightarrow>
                       if expiryTimestamp \<le> now + 86400 * 1000 then Inl CertExpired else Inr ())
              | _ \<Rightarrow> Inl TypeError))
      \<and> ((fst (checkCertIsValid_legacy env f s) = Inr ()) =
          (\<exists>out label part rest expiryTimestamp.
             answer = Inr out
             \<and> split_on (cu CHR ''='') (trim out) = label # part # rest
             \<and> date_parse env (trim part) = Some expiryTimestamp
             \<and> now + 86400 * 1000 < expiryTimestamp)))"
proof -
  let ?verdict = "case answer of
           Inl rejection \<Rightarrow> Inl rejection
         | Inr out \<Rightarrow>
             (case split_on (cu CHR ''='') (trim out) of
                label # part # rest \<Rightarrow>
                  (case date_parse env (trim part) of
                     None \<Rightarrow> Inl CannotParseExpiry
                   | Some expiryTimestamp \<Rightarrow>
                       if expiryTimestamp \<le> now + 86400 * 1000 then Inl CertExpired else Inr ())
              | _ \<Rightarrow> Inl TypeError)"
  have verdict: "(v = Inr ()) =
          (\<exists>out label part rest expiryTimestamp.
             answer = Inr out
             \<and> split_on (cu CHR ''='') (trim out) = label # part # rest
             \<and> date_parse env (trim part) = Some expiryTimestamp
             \<and> now + 86400 * 1000 < expiryTimestamp)"
    if "v = ?verdict" for v :: "error + unit"
    unfolding that by (auto split: sum.splits list.splits option.splits if_splits)
  have server: "fst (checkCertIsValid env f s) = ?verdict"
    if "fs_pathExists env f (ext s) = (True, w1)"
      "openssl env (X509_checkend (24 * 60 * 60) f) w1 = (Inl e, w2)"
      "openssl env (X509_enddate f) w2 = (answer, w3)" "date_now env w3 = (now, w4)"
    using that
    by (simp add: checkCertIsValid_def minCertExpiryWindowSeconds_def io_defs Let_def
        split: option.splits list.splits sum.splits)
  have legacy: "fst (checkCertIsValid_legacy env f s) = ?verdict"
    if "fs_pathExists env f (ext s) = (True, w1)"
      "openssl env (X509_checkend (24 * 60 * 60) f) w1 = (Inr quick, w2)"
      "openssl env (X509_enddate f) w2 = (answer, w3)" "date_now env w3 = (now, w4)"
    using that
    by (simp add: checkCertIsValid_legacy_def minCertExpiryWindowSeconds_def io_defs Let_def
        split: option.splits list.splits sum.splits)
  have rest: "(fs_pathExists env f (ext s) = (False, w1) \<longrightarrow>
      fst (checkCertIsValid env f s) = Inl (DoesNotExist f)
      \<and> fst (checkCertIsValid_legacy env f s) = Inl (DoesNotExist f))
   \<and> (fs_pathExists env f (ext s) = (True, w1)
        \<and> openssl env (X509_checkend (24 * 60 * 60) f) w1 = (Inr quick, w2) \<longrightarrow>
      fst (checkCertIsValid env f s) = Inr ())
   \<and> (fs_pathExists env f (ext s) = (True, w1)
        \<and> openssl env (X509_checkend (24 * 60 * 60) f) w1 = (Inl e, w2) \<longrightarrow>
      fst (checkCertIsValid_legacy env f s) = Inl e)"
    by (simp add: checkCertIsValid_def checkCertIsValid_legacy_def minCertExpiryWindowSeconds_def
      io_defs Let_def)
  show ?thesis
    using rest server verdict [OF server] legacy verdict [OF legacy] by blast
qed


lemma split_enddate:
  "split_on (cu CHR ''='') (trim (js ''notAfter=Jan 1 00:00:00 2040 GMT'' @ [0x0A]))
     = [js ''notAfter'', js ''Jan 1 00:00:00 2040 GMT'']"
  "split_on (cu CHR ''='') (trim (js ''notAfter=Jan 1 00:00:00 2020 GMT'' @ [0x0A]))
     = [js ''notAfter'', js ''Jan 1 00:00:00 2020 GMT'']"
  "split_on (cu CHR ''='') (trim (js ''unable to load certificate'')) = [js ''unable to load certificate'']"
  by (simp_all add: trim_def str_defs)

lemma trim_date:
  "trim (js ''Jan 1 00:00:00 2040 GMT'') = js ''Jan 1 00:00:00 2040 GMT''"
  "trim (js ''Jan 1 00:00:00 2020 GMT'') = js ''Jan 1 00:00:00 2020 GMT''"
  by (simp_all add: trim_def str_defs)

theorem checkCertIsValid_outcomes_witness:
  "fst (checkCertIsValid
          (demo_env [] (Inl (External (js ''Certificate will expire'')))
             (Inr (js ''notAfter=Jan 1 00:00:00 2040 GMT'' @ [0x0A])) (Inr []) [] (Inr ()))
          (js ''server.crt'') start) = Inr ()
   \<and> fst (checkCertIsValid
          (demo_env [] (Inl (External (js ''Certificate will expire'')))
             (Inr (js ''notAfter=Jan 1 00:00:00 2020 GMT'' @ [0x0A])) (Inr []) [] (Inr ()))
          (js ''server.crt'') start) = Inl CertExpired
   \<and> fst (checkCertIsValid
          (demo_env [] (Inl (External (js ''Certificate will expire'')))
             (Inr (js ''unable to load certificate'')) (Inr []) [] (Inr ()))
          (js ''server.crt'') start) = Inl TypeError
   \<and> fst (checkCertIsValid
          (demo_env [] (Inl (External (js ''Certificate will expire'')))
             (Inl (External (js ''openssl failed''))) (Inr []) [] (Inr ()))
          (js ''server.crt'') start) = Inl (External (js ''openssl failed''))
   \<and> fst (checkCertIsValid
          (demo_env [] (Inr []) (Inr (js ''notAfter=Jan 1 00:00:00 2020 GMT'' @ [0x0A])) (Inr []) []
             (Inr ()))
          (js ''server.crt'') start) = Inr ()
   \<and> fst (checkCertIsValid_legacy
          (demo_env [] (Inr [])
             (Inr (js ''notAfter=Jan 1 00:00:00 2040 GMT'' @ [0x0A])) (Inr []) [] (Inr ()))
          (js ''server.crt'') start) = Inr ()
   \<and> fst (checkCertIsValid_legacy
          (demo_env [] (Inr [])
             (Inr (js ''notAfter=Jan 1 00:00:00 2020 GMT'' @ [0x0A])) (Inr []) [] (Inr ()))
          (js ''server.crt'') start) = Inl CertExpired
   \<and> fst (checkCertIsValid
          ((demo_env [] (Inr []) (Inr []) (Inr []) [] (Inr ()))\<lparr>fs_pathExists := \<lambda>p w. (False, w)\<rparr>)
          (js ''server.crt'') start) = Inl (DoesNotExist (js ''server.crt''))
   \<and> fst (checkCertIsValid_legacy
          ((demo_env [] (Inr []) (Inr []) (Inr []) [] (Inr ()))\<lparr>fs_pathExists := \<lambda>p w. (False, w)\<rparr>)
          (js ''server.crt'') start) = Inl (DoesNotExist (js ''server.crt''))"
proof -
  let ?out40 = "js ''notAfter=Jan 1 00:00:00 2040 GMT'' @ [0x0A]"
  let ?out20 = "js ''notAfter=Jan 1 00:00:00 2020 GMT'' @ [0x0A]"
  let ?none = "(demo_env [] (Inr []) (Inr []) (Inr []) [] (Inr ()))\<lparr>fs_pathExists := \<lambda>p w. (False, w)\<rparr>"
  let ?e = "External (js ''Certificate will expire'')"
  have differ: "js ''Jan 1 00:00:00 2020 GMT'' \<noteq> js ''Jan 1 00:00:00 2040 GMT''"
    by (simp add: str_defs)
  note t = checkCertIsValid_outcomes [where f = "js ''server.crt''" and s = start
      and ?w1.0 = "()" and ?w2.0 = "()" and ?w3.0 = "()" and ?w4.0 = "()" and now = 1700000000000]
  have absent: "fst (checkCertIsValid ?none (js ''server.crt'') start) = Inl (DoesNotExist (js ''server.crt''))
      \<and> fst (checkCertIsValid_legacy ?none (js ''server.crt'') start)
          = Inl (DoesNotExist (js ''server.crt''))"
    using t [where env = ?none] by simp
  have s40: "fst (checkCertIsValid (demo_env [] (Inl ?e) (Inr ?out40) (Inr []) [] (Inr ()))
      (js ''server.crt'') start) = Inr ()"
    using t [where env = "demo_env [] (Inl ?e) (Inr ?out40) (Inr []) [] (Inr ())"
        and e = ?e and answer = "Inr ?out40"]
    by (simp add: demo_env_sel demo_date_parse demo_openssl_def split_enddate trim_date)
  have s20: "fst (checkCertIsValid (demo_env [] (Inl ?e) (Inr ?out20) (Inr []) [] (Inr ()))
      (js ''server.crt'') start) = Inl CertExpired"
    using t [where env = "demo_env [] (Inl ?e) (Inr ?out20) (Inr []) [] (Inr ())"
        and e = ?e and answer = "Inr ?out20"] differ
    by (simp add: demo_env_sel demo_date_parse demo_openssl_def split_enddate trim_date)
  have sty: "fst (checkCertIsValid (demo_env [] (Inl ?e) (Inr (js ''unable to load certificate''))
      (Inr []) [] (Inr ())) (js ''server.crt'') start) = Inl TypeError"
    using t [where env = "demo_env [] (Inl ?e) (Inr (js ''unable to load certificate'')) (Inr []) [] (Inr ())"
        and e = ?e and answer = "Inr (js ''unable to load certificate'')"]
    by (simp add: demo_env_sel demo_date_parse demo_openssl_def split_enddate)
  have srj: "fst (checkCertIsValid (demo_env [] (Inl ?e) (Inl (External (js ''openssl failed'')))
      (Inr []) [] (Inr ())) (js ''server.crt'') start) = Inl (External (js ''openssl failed''))"
    using t [where env = "demo_env [] (Inl ?e) (Inl (External (js ''openssl failed''))) (Inr []) [] (Inr ())"
        and e = ?e and answer = "Inl (External (js ''openssl failed''))"]
    by (simp add: demo_env_sel demo_openssl_def)
  have sq: "fst (checkCertIsValid (demo_env [] (Inr []) (Inr ?out20) (Inr []) [] (Inr ()))
      (js ''server.crt'') start) = Inr ()"
    using t [where env = "demo_env [] (Inr []) (Inr ?out20) (Inr []) [] (Inr ())" and quick = "[]"]
    by (simp add: demo_env_sel demo_openssl_def)
  have l40: "fst (checkCertIsValid_legacy (demo_env [] (Inr []) (Inr ?out40) (Inr []) [] (Inr ()))
      (js ''server.crt'') start) = Inr ()"
    using t [where env = "demo_env [] (Inr []) (Inr ?out40) (Inr []) [] (Inr ())"
        and quick = "[]" and answer = "Inr ?out40"]
    by (simp add: demo_env_sel demo_date_parse demo_openssl_def split_enddate trim_date)
  have l20: "fst (checkCertIsValid_legacy (demo_env [] (Inr []) (Inr ?out20) (Inr []) [] (Inr ()))
      (js ''server.crt'') start) = Inl CertExpired"
    using t [where env = "demo_env [] (Inr []) (Inr ?out20) (Inr []) [] (Inr ())"
        and quick = "[]" and answer = "Inr ?out20"] differ
    by (simp add: demo_env_sel demo_date_parse demo_openssl_def split_enddate trim_date)
  from absent s40 s20 sty srj sq l40 l20 show ?thesis by simp
qed

text \<open>
  The claim as stated fails in \<^verbatim>\<open>utils/CertificateProvider.tsx\<close>: the quick check fails,
  the end date is years beyond the guard window, and the certificate is rejected.
\<close>

theorem checkCertIsValid_legacy_no_fallback_counterexample:
  "date_parse (demo_env [] (Inl (External (js ''Certificate will expire'')))
             (Inr (js ''notAfter=Jan 1 00:00:00 2040 GMT'')) (Inr []) [] (Inr ()))
      (js ''Jan 1 00:00:00 2040 GMT'') = Some 2208988800000
   \<and> \<not> (2208988800000 \<le> (1700000000000 :: int) + 86400 * 1000)
   \<and> fst (checkCertIsValid_legacy
          (demo_env [] (Inl (External (js ''Certificate will expire'')))
             (Inr (js ''notAfter=Jan 1 00:00:00 2040 GMT'')) (Inr []) [] (Inr ()))
          (js ''server.crt'') start) = Inl (External (js ''Certificate will expire''))"
  by (simp add: checkCertIsValid_legacy_def demo_env_sel demo_date_parse demo_openssl_def io_defs start_def)

section \<open>The server certificate\<close>

lemma ensureServerCertExists_all_exist:
  assumes "fs_pathExists env (serverKey env) (ext s) = (True, w1)"
    and "fs_pathExists env (serverCert env) w1 = (True, w2)"
    and "fs_pathExists env (caCert env) w2 = (True, w3)"
  shows "ensureServerCertExists env s =
     (case checkCertIsValid env (serverCert env) (after_existence_checks env s w3) of
        (Inl e, s4) \<Rightarrow> generateServerCertificate env (emit (not_all_valid e) s4)
      | (Inr _, s4) \<Rightarrow>
          (case verifyServerCertWasIssuedByCA env s4 of
             (Inl e, s5) \<Rightarrow> generateServerCertificate env (emit (not_all_valid e) s5)
           | (Inr _, s5) \<Rightarrow> (Inr (), s5)))"
  using assms
  by (simp add: ensureServerCertExists_def after_existence_checks_def not_all_valid_def
      io_bind_def io_catch_def call_total_def console_def emit_def Let_def
      split: prod.splits sum.splits)

lemma verifyServerCertWasIssuedByCA_outcome:
  "openssl env (Verify (caCert env) (serverCert env)) (ext s) = (res, w) \<Longrightarrow>
   fst (verifyServerCertWasIssuedByCA env s) =
     (case res of Inl e \<Rightarrow> Inl e
      | Inr out \<Rightarrow> if verifiedRegex out then Inr () else Inl NotIssuedByCA)"
  by (simp add: verifyServerCertWasIssuedByCA_def io_defs split: sum.splits)

lemma generateServerCertificate_run:
  assumes "ensureCertificateAuthorityExists env t = (Inr (), t1)"
    and "openssl env (Genrsa (serverKey env)) (ext t1) = (Inr key, v1)"
    and "openssl env (Req_new (serverKey env) (serverCsr env) serverSubject) v1 = (Inr request, v2)"
    and "openssl env (X509_sign_out (serverCsr env) (caCert env) (caKey env) (serverSrl env)
                        (serverCert env)) v2 = (issued, v3)"
  shows "generateServerCertificate env t =
      (case issued of Inl rejection \<Rightarrow> Inl rejection | Inr _ \<Rightarrow> Inr (),
       t1\<lparr>ext := v3, trace := trace t1 @ regeneration_events env (\<not> isl issued)\<rparr>)"
  using assms
  by (simp add: generateServerCertificate_def regeneration_events_def io_defs Let_def
      split: sum.splits)

lemma ensureCertificateAuthorityExists_kept:
  assumes "fs_pathExists env (caKey env) (ext t) = (True, u1)"
    and "fs_pathExists env (caCert env) u1 = (True, u2)"
    and "openssl env (X509_checkend (24 * 60 * 60) (caCert env)) u2 = (Inr quick, u3)"
  shows "ensureCertificateAuthorityExists env t =
      (Inr (), t\<lparr>ext := u3,
                  trace := trace t @ [Call (FsPathExists (caKey env)) True,
                                      Call (FsPathExists (caCert env)) True,
                                      Call (Openssl (X509_checkend (24 * 60 * 60) (caCert env))) True]\<rparr>)"
  using assms
  by (simp add: ensureCertificateAuthorityExists_def checkCertIsValid_def
      minCertExpiryWindowSeconds_def io_defs)

lemma ensureServerCertExists_verdict:
  assumes "fs_pathExists env (serverKey env) (ext s) = (True, w1)"
    and "fs_pathExists env (serverCert env) w1 = (True, w2)"
    and "fs_pathExists env (caCert env) w2 = (True, w3)"
    and "fs_pathExists env (serverCert env) w3 = (True, x1)"
    and "openssl env (X509_checkend (24 * 60 * 60) (serverCert env)) x1 = (Inr quick, x2)"
    and "openssl env (Verify (caCert env) (serverCert env)) x2 = (verdict, x3)"
  shows "ensureServerCertExists env s =
      (case verdict of
         Inl rejection \<Rightarrow>
           generateServerCertificate env
             (s\<lparr>ext := x3,
                trace := trace s @ checked_events env False @ [not_all_valid rejection]\<rparr>)
       | Inr out \<Rightarrow>
           if verifiedRegex out
           then (Inr (), s\<lparr>ext := x3, trace := trace s @ checked_events env True\<rparr>)
           else generateServerCertificate env
                  (s\<lparr>ext := x3,
                     trace := trace s @ checked_events env True @ [not_all_valid NotIssuedByCA]\<rparr>))"
  using assms
  by (simp add: ensureServerCertExists_def checkCertIsValid_def verifyServerCertWasIssuedByCA_def
      checked_events_def not_all_valid_def minCertExpiryWindowSeconds_def io_defs Let_def
      split: sum.splits)

text \<open>
  C1. When the server key, the server certificate and the CA certificate are all there,
  \<^verbatim>\<open>ensureServerCertExists\<close> runs the expiry check and then, on the state the check
  leaves, the chain verification against the CA certificate on disk; when either fails
  it logs the failure and runs \<^verbatim>\<open>generateServerCertificate\<close>, and only when both pass it
  returns without generating. In terms of what the toolkit answers: when the quick
  expiry check passes, the verification command is called next, and unless it resolves
  and prints \<^verbatim>\<open>OK\<close> after a name, the warning is logged and
  \<^verbatim>\<open>generateServerCertificate\<close> runs from there; so a certificate that passes the expiry
  check and was signed by another CA is regenerated. Regenerating means: with the
  authority in place (which it is without a call to the toolkit other than the quick
  check when the CA key and a sound CA certificate exist), a new key is generated, a
  new request is made, and the request is signed with the CA certificate and key into
  the server certificate file; the outcome is that of the signing.
\<close>

theorem ensureServerCertExists_two_checks:
  assumes "fs_pathExists env (serverKey env) (ext s) = (True, w1)"
    and "fs_pathExists env (serverCert env) w1 = (True, w2)"
    and "fs_pathExists env (caCert env) w2 = (True, w3)"
  shows
    "(checkCertIsValid env (serverCert env) (after_existence_checks env s w3) = (Inl e, s4) \<longrightarrow>
        ensureServerCertExists env s = generateServerCertificate env (emit (not_all_valid e) s4))
     \<and> (checkCertIsValid env (serverCert env) (after_existence_checks env s w3) = (Inr (), s4)
          \<and> verifyServerCertWasIssuedByCA env s4 = (Inl e, s5) \<longrightarrow>
        ensureServerCertExists env s = generateServerCertificate env (emit (not_all_valid e) s5))
     \<and> (checkCertIsValid env (serverCert env) (after_existence_checks env s w3) = (Inr (), s4)
          \<and> verifyServerCertWasIssuedByCA env s4 = (Inr (), s5) \<longrightarrow>
        ensureServerCertExists env s = (Inr (), s5))
     \<and> (openssl env (Verify (caCert env) (serverCert env)) (ext s4) = (Inr out, w5)
          \<and> \<not> verifiedRegex out \<longrightarrow>
        fst (verifyServerCertWasIssuedByCA env s4) = Inl NotIssuedByCA)
     \<and> (openssl env (Verify (caCert env) (serverCert env)) (ext s4) = (Inl e, w5) \<longrightarrow>
        fst (verifyServerCertWasIssuedByCA env s4) = Inl e)
     \<and> (fs_pathExists env (serverCert env) w3 = (True, x1)
          \<and> openssl env (X509_checkend (24 * 60 * 60) (serverCert env)) x1 = (Inr quick, x2)
          \<and> openssl env (Verify (caCert env) (serverCert env)) x2 = (verdict, x3) \<longrightarrow>
        ensureServerCertExists env s =
          (case verdict of
             Inl rejection \<Rightarrow>
               generateServerCertificate env
                 (s\<lparr>ext := x3,
                    trace := trace s @ checked_events env False @ [not_all_valid rejection]\<rparr>)
           | Inr printed \<Rightarrow>
               if verifiedRegex printed
               then (Inr (), s\<lparr>ext := x3, trace := trace s @ checked_events env True\<rparr>)
               else generateServerCertificate env
                      (s\<lparr>ext := x3,
                         trace := trace s @ checked_events env True
                                  @ [not_all_valid NotIssuedByCA]\<rparr>)))
     \<and> (ensureCertificateAuthorityExists env t = (Inr (), t1)
          \<and> openssl env (Genrsa (serverKey env)) (ext t1) = (Inr key, v1)
          \<and> openssl env (Req_new (serverKey env) (serverCsr env) serverSubject) v1
              = (Inr request, v2)
          \<and> openssl env (X509_sign_out (serverCsr env) (caCert env) (caKey env) (serverSrl env)
                           (serverCert env)) v2 = (issued, v3) \<longrightarrow>
        generateServerCertificate env t =
          (case issued of Inl rejection \<Rightarrow> Inl rejection | Inr _ \<Rightarrow> Inr (),
           t1\<lparr>ext := v3, trace := trace t1 @ regeneration_events env (\<not> isl issued)\<rparr>))
     \<and> (fs_pathExists env (caKey env) (ext t) = (True, u1)
          \<and> fs_pathExists env (caCert env) u1 = (True, u2)
          \<and> openssl env (X509_checkend (24 * 60 * 60) (caCert env)) u2 = (Inr sound, u3) \<longrightarrow>
        ensureCertificateAuthorityExists env t =
          (Inr (), t\<lparr>ext := u3,
                      trace := trace t @ [Call (FsPathExists (caKey env)) True,
                                          Call (FsPathExists (caCert env)) True,
                                          Call (Openssl (X509_checkend (24 * 60 * 60) (caCert env)))
                                            True]\<rparr>))"
proof -
  have old: "(checkCertIsValid env (serverCert env) (after_existence_checks env s w3) = (Inl e, s4) \<longrightarrow>
        ensureServerCertExists env s = generateServerCertificate env (emit (not_all_valid e) s4))
     \<and> (checkCertIsValid env (serverCert env) (after_existence_checks env s w3) = (Inr (), s4)
          \<and> verifyServerCertWasIssuedByCA env s4 = (Inl e, s5) \<longrightarrow>
        ensureServerCertExists env s = generateServerCertificate env (emit (not_all_valid e) s5))
     \<and> (checkCertIsValid env (serverCert env) (after_existence_checks env s w3) = (Inr (), s4)
          \<and> verifyServerCertWasIssuedByCA env s4 = (Inr (), s5) \<longrightarrow>
        ensureServerCertExists env s = (Inr (), s5))
     \<and> (openssl env (Verify (caCert env) (serverCert env)) (ext s4) = (Inr out, w5)
          \<and> \<not> verifiedRegex out \<longrightarrow>
        fst (verifyServerCertWasIssuedByCA env s4) = Inl NotIssuedByCA)
     \<and> (openssl env (Verify (caCert env) (serverCert env)) (ext s4) = (Inl e, w5) \<longrightarrow>
        fst (verifyServerCertWasIssuedByCA env s4) = Inl e)"
    by (simp add: ensureServerCertExists_all_exist [OF assms] verifyServerCertWasIssuedByCA_outcome)
  show ?thesis
    using old ensureServerCertExists_verdict [OF assms, of x1 quick x2 verdict x3]
      generateServerCertificate_run [of env t t1 key v1 request v2 issued v3]
      ensureCertificateAuthorityExists_kept [of env t u1 u2 sound u3]
    by blast
qed


theorem ensureServerCertExists_two_checks_witness:
  "\<not> verifiedRegex (js ''server.crt: verification failed'')
   \<and> ensureServerCertExists
        (demo_env [] (Inr []) (Inr []) (Inr (js ''server.crt: verification failed'')) [] (Inr ()))
        start
      = (Inr (),
         \<lparr>trace = [Call (FsPathExists (js ''/home/u/.flipper/certs/server.key'')) True,
                   Call (FsPathExists (js ''/home/u/.flipper/certs/server.crt'')) True,
                   Call (FsPathExists (js ''/home/u/.flipper/certs/ca.crt'')) True,
                   Call (FsPathExists (js ''/home/u/.flipper/certs/server.crt'')) True,
                   Call (Openssl (X509_checkend 86400 (js ''/home/u/.flipper/certs/server.crt''))) True,
                   Call (Openssl (Verify (js ''/home/u/.flipper/certs/ca.crt'')
                                   (js ''/home/u/.flipper/certs/server.crt''))) True,
                   Console Warn [Text (js ''Not all certs are valid, generating new ones''),
                                 Thrown NotIssuedByCA],
                   Call (FsPathExists (js ''/home/u/.flipper/certs/ca.key'')) True,
                   Call (FsPathExists (js ''/home/u/.flipper/certs/ca.crt'')) True,
                   Call (Openssl (X509_checkend 86400 (js ''/home/u/.flipper/certs/ca.crt''))) True,
                   Console Warn [Text (js ''Creating new server cert''),
                                 Text (js ''CertificateProvider'')],
                   Call (Openssl (Genrsa (js ''/home/u/.flipper/certs/server.key''))) True,
                   Call (Openssl (Req_new (js ''/home/u/.flipper/certs/server.key'')
                                   (js ''/home/u/.flipper/certs/server.csr'')
                                   (js ''/C=US/ST=CA/L=Menlo Park/O=Sonar/CN=localhost''))) True,
                   Call (Openssl (X509_sign_out (js ''/home/u/.flipper/certs/server.csr'')
                                   (js ''/home/u/.flipper/certs/ca.crt'')
                                   (js ''/home/u/.flipper/certs/ca.key'')
                                   (js ''/home/u/.flipper/certs/server.srl'')
                                   (js ''/home/u/.flipper/certs/server.crt''))) True],
          ext = ()\<rparr>)
   \<and> verifiedRegex (js ''server.crt: OK'')
   \<and> ensureServerCertExists
        (demo_env [] (Inr []) (Inr []) (Inr (js ''server.crt: OK'')) [] (Inr ())) start
      = (Inr (),
         \<lparr>trace = [Call (FsPathExists (js ''/home/u/.flipper/certs/server.key'')) True,
                   Call (FsPathExists (js ''/home/u/.flipper/certs/server.crt'')) True,
                   Call (FsPathExists (js ''/home/u/.flipper/certs/ca.crt'')) True,
                   Call (FsPathExists (js ''/home/u/.flipper/certs/server.crt'')) True,
                   Call (Openssl (X509_checkend 86400 (js ''/home/u/.flipper/certs/server.crt''))) True,
                   Call (Openssl (Verify (js ''/home/u/.flipper/certs/ca.crt'')
                                   (js ''/home/u/.flipper/certs/server.crt''))) True],
          ext = ()\<rparr>)"
proof -
  let ?bad = "demo_env [] (Inr []) (Inr []) (Inr (js ''server.crt: verification failed'')) [] (Inr ())"
  let ?good = "demo_env [] (Inr []) (Inr []) (Inr (js ''server.crt: OK'')) [] (Inr ())"
  let ?X = "start\<lparr>ext := (),
      trace := trace start @ checked_events ?bad True @ [not_all_valid NotIssuedByCA]\<rparr>"
  let ?X1 = "?X\<lparr>ext := (),
      trace := trace ?X @ [Call (FsPathExists (caKey ?bad)) True,
                           Call (FsPathExists (caCert ?bad)) True,
                           Call (Openssl (X509_checkend (24 * 60 * 60) (caCert ?bad))) True]\<rparr>"
  have nv: "\<not> verifiedRegex (js ''server.crt: verification failed'')"
    by (simp add: str_defs)
  have ok: "verifiedRegex (js ''server.crt: OK'')"
    by (simp add: str_defs)
  have p: "fs_pathExists env0 f (ext start) = (True, ())" "fs_pathExists env0 f () = (True, ())"
    if "fs_pathExists env0 = (\<lambda>p w. (True, w))" for env0 :: "unit env" and f
    using that by (simp_all add: start_def)
  note pb = p [OF demo_env_sel(6) [of "[]" "Inr []" "Inr []" "Inr (js ''server.crt: verification failed'')" "[]" "Inr ()"]]
  note pg = p [OF demo_env_sel(6) [of "[]" "Inr []" "Inr []" "Inr (js ''server.crt: OK'')" "[]" "Inr ()"]]
  note bad = ensureServerCertExists_two_checks [OF pb(1) pb(2) pb(2), where ?x1.0 = "()"
      and ?x2.0 = "()" and ?x3.0 = "()" and quick = "[]"
      and verdict = "Inr (js ''server.crt: verification failed'')"
      and t = ?X and ?t1.0 = ?X1 and key = "[]" and ?v1.0 = "()" and request = "[]"
      and ?v2.0 = "()" and issued = "Inr []" and ?v3.0 = "()"
      and ?u1.0 = "()" and ?u2.0 = "()" and ?u3.0 = "()" and sound = "[]"]
  have b1: "ensureServerCertExists ?bad start = generateServerCertificate ?bad ?X"
    using bad nv by (simp add: demo_env_sel demo_openssl_def)
  have b2: "ensureCertificateAuthorityExists ?bad ?X = (Inr (), ?X1)"
    using bad by (simp add: demo_env_sel demo_openssl_def)
  have b3: "generateServerCertificate ?bad ?X
      = (Inr (), ?X1\<lparr>ext := (), trace := trace ?X1 @ regeneration_events ?bad True\<rparr>)"
    using bad b2 by (simp add: demo_env_sel demo_openssl_def)
  have b: "ensureServerCertExists ?bad start
      = (Inr (), ?X1\<lparr>ext := (), trace := trace ?X1 @ regeneration_events ?bad True\<rparr>)"
    using b1 b3 by simp
  note good = ensureServerCertExists_two_checks [OF pg(1) pg(2) pg(2), where ?x1.0 = "()"
      and ?x2.0 = "()" and ?x3.0 = "()" and quick = "[]"
      and verdict = "Inr (js ''server.crt: OK'')"]
  have g: "ensureServerCertExists ?good start
      = (Inr (), start\<lparr>ext := (), trace := trace start @ checked_events ?good True\<rparr>)"
    using good ok by (simp add: demo_env_sel demo_openssl_def)
  have names: "serverKey env0 = js ''/home/u/.flipper/certs/server.key''"
    "serverCert env0 = js ''/home/u/.flipper/certs/server.crt''"
    "serverCsr env0 = js ''/home/u/.flipper/certs/server.csr''"
    "serverSrl env0 = js ''/home/u/.flipper/certs/server.srl''"
    "caCert env0 = js ''/home/u/.flipper/certs/ca.crt''"
    "caKey env0 = js ''/home/u/.flipper/certs/ca.key''"
    if "getFilePath env0 = (\<lambda>name. js ''/home/u/.flipper/certs/'' @ name)" for env0 :: "unit env"
    using that
    by (simp_all add: serverKey_def serverCert_def serverCsr_def serverSrl_def caCert_def caKey_def
        js_def)
  show ?thesis
    using nv ok b g
    by (simp add: names [OF demo_env_sel(1)] checked_events_def regeneration_events_def
        not_all_valid_def serverSubject_def start_def)
qed

section \<open>What a call adds to the trace\<close>

lemma addsD:
  "adds A m \<Longrightarrow> m s = (r, s') \<Longrightarrow> \<exists>evs. trace s' = trace s @ evs \<and> list_all A evs"
  by (auto simp: adds_def dest: spec [where x = s])

lemma adds_return [intro!]: "adds A (io_return x)"
  and adds_throw [intro!]: "adds A (io_throw e)"
  and adds_await [intro!]: "adds A (io_await r)"
  by (simp_all add: adds_def io_return_def io_throw_def io_await_def)

lemma adds_bind [intro!]:
  assumes "adds A m" "\<And>x. adds A (f x)"
  shows "adds A (io_bind m f)"
proof (unfold adds_def, intro allI)
  fix s
  obtain r s1 where m: "m s = (r, s1)" by (cases "m s")
  from addsD [OF assms(1) m] obtain evs where e: "trace s1 = trace s @ evs" "list_all A evs" by auto
  show "\<exists>evs. trace (snd (io_bind m f s)) = trace s @ evs \<and> list_all A evs"
  proof (cases r)
    case (Inl err)
    with m e show ?thesis by (auto simp: io_bind_def)
  next
    case (Inr x)
    obtain r2 s2 where f: "f x s1 = (r2, s2)" by (cases "f x s1")
    from addsD [OF assms(2) f] obtain evs2 where "trace s2 = trace s1 @ evs2" "list_all A evs2" by auto
    with m e Inr f show ?thesis by (auto simp: io_bind_def)
  qed
qed

lemma adds_catch [intro!]:
  assumes "adds A m" "\<And>e. adds A (h e)"
  shows "adds A (io_catch m h)"
proof (unfold adds_def, intro allI)
  fix s
  obtain r s1 where m: "m s = (r, s1)" by (cases "m s")
  from addsD [OF assms(1) m] obtain evs where e: "trace s1 = trace s @ evs" "list_all A evs" by auto
  show "\<exists>evs. trace (snd (io_catch m h s)) = trace s @ evs \<and> list_all A evs"
  proof (cases r)
    case (Inr x)
    with m e show ?thesis by (auto simp: io_catch_def)
  next
    case (Inl err)
    obtain r2 s2 where f: "h err s1 = (r2, s2)" by (cases "h err s1")
    from addsD [OF assms(2) f] obtain evs2 where "trace s2 = trace s1 @ evs2" "list_all A evs2" by auto
    with m e Inl f show ?thesis by (auto simp: io_catch_def)
  qed
qed

lemma adds_settle [intro!]: "adds A m \<Longrightarrow> adds A (io_settle m)"
  by (simp add: adds_def io_settle_def split: prod.splits) (metis snd_conv)

lemma adds_call [intro!]: "(\<And>b. A (Call r b)) \<Longrightarrow> adds A (call r f)"
  by (auto simp: adds_def call_def emit_def split: prod.splits)

lemma adds_call_total [intro!]: "A (Call r True) \<Longrightarrow> adds A (call_total r f)"
  by (auto simp: adds_def call_total_def emit_def split: prod.splits)

lemma adds_console [intro!]: "A (Console l args) \<Longrightarrow> adds A (console l args)"
  by (auto simp: adds_def console_def emit_def)


lemma adds_emit [intro!]: "A ev \<Longrightarrow> adds A (\<lambda>s. (Inr x, emit ev s))"
  by (auto simp: adds_def emit_def)

lemma quiet_simps [simp]:
  "quiet (Call TmpDir b)" "quiet (Call TmpFile b)" "quiet (Call (FsWriteFile p c) b)"
  "quiet (Call (FsReadFile p) b)" "quiet (Call (FsPathExists p) b)" "quiet (Call (FsMkdir p) b)"
  "quiet (Call (FsUnlink p) b)" "quiet (Call (Openssl cmd) b)" "quiet (Call OpensslInstalled b)"
  "quiet (Call Uuid b)" "quiet (Console l args)" "quiet (ServerEmit e)"
  "quiet (Call (ReportPlatform n) b)"
  by (simp_all add: quiet_def)


lemma quiet_ensureOpenSSL: "adds quiet (ensureOpenSSLIsAvailable env)"
  unfolding ensureOpenSSLIsAvailable_def by (auto intro!: adds_bind adds_call_total adds_emit)

lemma quiet_writeToTempFile: "adds quiet (writeToTempFile env content)"
  unfolding writeToTempFile_def by (auto intro!: adds_bind adds_call)

lemma quiet_extract: "adds quiet (extractAppNameFromCSR env csr)"
  unfolding extractAppNameFromCSR_def
  by (auto intro!: adds_bind adds_call quiet_writeToTempFile split: option.splits)

lemma quiet_generateClient: "adds quiet (generateClientCertificate env csr)"
  unfolding generateClientCertificate_def Let_def
  by (auto intro!: adds_bind adds_call adds_console quiet_writeToTempFile)

lemma quiet_getCA: "adds quiet (getCACertificate env)"
  unfolding getCACertificate_def by (auto intro!: adds_call)

lemma quiet_stage:
  "adds quiet (deployOrStageFileForMobileApp env this destination filename contents csr os WWW certFolder)"
  unfolding deployOrStageFileForMobileApp_def
  by (auto intro!: adds_bind adds_catch adds_call adds_call_total)

lemma upload_event_simps [simp]:
  "\<not> device_event (Call (ZipDirectory a b) c)" "\<not> device_event (Call (GraphPost t e f d) c)"
  "\<not> device_event (Call (FsReadFile p) c)" "\<not> device_event (Call (ReportPlatform n) c)"
  by simp_all





section \<open>The device id and the medium\<close>





section \<open>The upload\<close>

lemma shape_step:
  assumes m: "adds quiet m"
    and g: "\<And>s x s1 evs. m s = (Inr x, s1) \<Longrightarrow> trace s1 = trace s @ evs \<Longrightarrow> G x evs"
    and k: "\<And>x. shape (U' x) (f x)"
    and u: "\<And>x evs res pre up s'. G x evs \<Longrightarrow> U' x res pre up s' \<Longrightarrow> U res (evs @ pre) up s'"
  shows "shape U (io_bind m f)"
  unfolding shape_def
proof (intro allI impI)
  fix s res s'
  assume run: "io_bind m f s = (res, s')"
  obtain r1 s1 where m1: "m s = (r1, s1)" by (cases "m s")
  from addsD [OF m m1] obtain evs where e: "trace s1 = trace s @ evs" "list_all quiet evs" by auto
  show "\<exists>pre up. trace s' = trace s @ pre @ up \<and> list_all quiet pre
           \<and> ((up = [] \<and> isl res) \<or> U res pre up s')"
  proof (cases r1)
    case (Inl err)
    with run m1 have "res = Inl err" "s' = s1" by (simp_all add: io_bind_def)
    with e show ?thesis by (intro exI [of _ evs] exI [of _ "[]"]) simp
  next
    case (Inr x)
    with run m1 have "f x s1 = (res, s')" by (simp add: io_bind_def)
    with k [of x] obtain pre up where p: "trace s' = trace s1 @ pre @ up" "list_all quiet pre"
      "(up = [] \<and> isl res) \<or> U' x res pre up s'"
      unfolding shape_def by blast
    from g [OF m1 [unfolded Inr] e(1)] have "G x evs" .
    with p(3) u have "(up = [] \<and> isl res) \<or> U res (evs @ pre) up s'" by blast
    with p e show ?thesis by (intro exI [of _ "evs @ pre"] exI [of _ up]) simp
  qed
qed

lemma shape_plain:
  assumes "adds quiet m" and "\<And>x. shape U (f x)"
    and "\<And>evs res pre up s'. U res pre up s' \<Longrightarrow> U res (evs @ pre) up s'"
  shows "shape U (io_bind m f)"
  using assms(1) _ assms(2) by (rule shape_step [where G = "\<lambda>_ _. True"]) (simp_all add: assms(3))

lemma stage_written:
  assumes "deployOrStageFileForMobileApp env this destination filename contents csr os WWW
             certFolder s = (Inr u, s1)"
    and "trace s1 = trace s @ evs"
  shows "Call (FsWriteFile (certFolder @ filename) contents) True \<in> set evs"
  using assms
  by (auto simp: deployOrStageFileForMobileApp_def io_defs split: prod.splits sum.splits if_splits)

lemma call_run:
  "f (ext s) = (r, w) \<Longrightarrow>
   call rq f s = (r, s\<lparr>ext := w, trace := trace s @ [Call rq (\<not> isl r)]\<rparr>)"
  by (simp add: call_def emit_def)

lemma report_run:
  "m s = (r, s1) \<Longrightarrow>
   reportPlatformFailures m name s
     = (r, s1\<lparr>trace := trace s1 @ [Call (ReportPlatform name) (\<not> isl r)]\<rparr>)"
  by (simp add: reportPlatformFailures_def emit_def)

lemma upload_run:
  fixes env :: "'w env" and s :: "'w state"
  defines "cf \<equiv> \<lambda>root. root @ js ''/FlipperCerts/''" and "zp \<equiv> \<lambda>root. root @ js ''/certs.zip''"
  assumes run: "io_bind
        (io_bind (reportPlatformFailures
                    (call (ZipDirectory (cf root) (zp root)) (zip_directory env (cf root) (zp root)))
                    (js ''www-certs-exchange-zipping-certs''))
           (\<lambda>_. reportPlatformFailures (uploadFiles env (zp root) deviceId)
                   (js ''www-certs-exchange-uploading-certs'')))
        (\<lambda>_. io_return deviceId) s = (res, s')"
  shows "(\<exists>e. res = Inl e \<and> trace s' = trace s @ archive_events root False)
     \<or> (\<exists>e. res = Inl e \<and> trace s' = trace s @ archive_events root True
             @ [Call (FsReadFile (zp root)) False,
                Call (ReportPlatform (js ''www-certs-exchange-uploading-certs'')) False])
     \<or> (\<exists>zipped archive answer wb wc.
           zip_directory env (cf root) (zp root) (ext s) = (Inr zipped, wb)
           \<and> fs_readFile env (zp root) wb = (Inr archive, wc)
           \<and> graph_post env (5 * 60 * 1000) (js ''flipper/certificates'') archive deviceId wc
               = (answer, ext s')
           \<and> res = (case answer of Inl e \<Rightarrow> Inl e | Inr _ \<Rightarrow> Inr deviceId)
           \<and> trace s' = trace s @ archive_events root True @ Call (FsReadFile (zp root)) True
                   # upload_events archive deviceId (\<not> isl answer))"
proof -
  let ?zipname = "js ''www-certs-exchange-zipping-certs''"
  let ?upname = "js ''www-certs-exchange-uploading-certs''"
  obtain rz wz where z: "zip_directory env (cf root) (zp root) (ext s) = (rz, wz)"
    by (cases "zip_directory env (cf root) (zp root) (ext s)")
  let ?s1 = "s\<lparr>ext := wz, trace := trace s @ [Call (ZipDirectory (cf root) (zp root)) (\<not> isl rz)]\<rparr>"
  let ?s2 = "?s1\<lparr>trace := trace ?s1 @ [Call (ReportPlatform ?zipname) (\<not> isl rz)]\<rparr>"
  have zip: "reportPlatformFailures
       (call (ZipDirectory (cf root) (zp root)) (zip_directory env (cf root) (zp root))) ?zipname s
     = (rz, ?s2)"
    by (rule report_run, rule call_run) (simp add: z)
  obtain rf wf where f: "fs_readFile env (zp root) wz = (rf, wf)"
    by (cases "fs_readFile env (zp root) wz")
  let ?s3 = "?s2\<lparr>ext := wf, trace := trace ?s2 @ [Call (FsReadFile (zp root)) (\<not> isl rf)]\<rparr>"
  have read: "call (FsReadFile (zp root)) (fs_readFile env (zp root)) ?s2 = (rf, ?s3)"
    by (rule call_run) (simp add: f)
  show ?thesis
  proof (cases rz)
    case (Inl e)
    with run zip have "res = Inl e" "s' = ?s2"
      by (auto simp add: io_bind_def)
    with Inl have "res = Inl e" "trace s' = trace s @ archive_events root False"
      by (simp_all add: archive_events_def cf_def zp_def)
    then show ?thesis by blast
  next
    case zok: (Inr zipped)
    with run zip have run2: "io_bind (reportPlatformFailures (uploadFiles env (zp root) deviceId) ?upname)
         (\<lambda>_. io_return deviceId) ?s2 = (res, s')"
      by (simp add: io_bind_def)
    show ?thesis
    proof (cases rf)
      case (Inl e)
      with read have "uploadFiles env (zp root) deviceId ?s2 = (Inl e, ?s3)"
        by (simp add: uploadFiles_def io_bind_def)
      from report_run [where m = "uploadFiles env (zp root) deviceId", OF this, of ?upname] run2
      have "res = Inl e" "s' = ?s3\<lparr>trace := trace ?s3 @ [Call (ReportPlatform ?upname) False]\<rparr>"
        by (auto simp add: io_bind_def)
      with Inl zok have "res = Inl e" "trace s' = trace s @ archive_events root True
             @ [Call (FsReadFile (zp root)) False, Call (ReportPlatform ?upname) False]"
        by (simp_all add: archive_events_def cf_def zp_def)
      then show ?thesis by blast
    next
      case rok: (Inr archive)
      obtain rp wp where p: "graph_post env (5 * 60 * 1000) (js ''flipper/certificates'') archive
          deviceId wf = (rp, wp)"
        by (cases "graph_post env (5 * 60 * 1000) (js ''flipper/certificates'') archive deviceId wf")
      let ?post = "GraphPost (5 * 60 * 1000) (js ''flipper/certificates'') archive deviceId"
      let ?s4 = "?s3\<lparr>ext := wp, trace := trace ?s3 @ [Call ?post (\<not> isl rp)]\<rparr>"
      let ?s5 = "?s4\<lparr>trace := trace ?s4 @ [Call (ReportPlatform (js ''uploadCertificates'')) (\<not> isl rp)]\<rparr>"
      let ?s6 = "?s5\<lparr>trace := trace ?s5 @ [Call (ReportPlatform ?upname) (\<not> isl rp)]\<rparr>"
      have "call ?post (graph_post env (5 * 60 * 1000) (js ''flipper/certificates'') archive deviceId) ?s3
          = (rp, ?s4)"
        using p by (intro call_run) simp
      from report_run [where m = "call ?post (graph_post env (5 * 60 * 1000) (js ''flipper/certificates'') archive deviceId)",
          OF this, of "js ''uploadCertificates''"] read rok
      have "uploadFiles env (zp root) deviceId ?s2 = (rp, ?s5)"
        by (simp add: uploadFiles_def io_bind_def)
      from report_run [where m = "uploadFiles env (zp root) deviceId", OF this, of ?upname] run2
      have "(case rp of Inl e \<Rightarrow> (Inl e, ?s6) | Inr x \<Rightarrow> (Inr deviceId, ?s6)) = (res, s')"
        by (simp add: io_bind_def io_return_def split: sum.splits)
      then have r: "res = (case rp of Inl e \<Rightarrow> Inl e | Inr _ \<Rightarrow> Inr deviceId)" and s': "s' = ?s6"
        by (auto split: sum.splits)
      from s' have "ext s' = wp" by simp
      moreover from s' zok rok have "trace s' = trace s @ archive_events root True
           @ Call (FsReadFile (zp root)) True # upload_events archive deviceId (\<not> isl rp)"
        by (simp add: archive_events_def upload_events_def cf_def zp_def)
      ultimately show ?thesis using z f zok rok p r by blast
    qed
  qed
qed

lemma upload_shape:
  "shape (\<lambda>res pre up s'. upload_outcome env root res up s')
     (io_bind
        (io_bind (reportPlatformFailures
                    (call (ZipDirectory (root @ js ''/FlipperCerts/'') (root @ js ''/certs.zip''))
                       (zip_directory env (root @ js ''/FlipperCerts/'') (root @ js ''/certs.zip'')))
                    (js ''www-certs-exchange-zipping-certs''))
           (\<lambda>_. reportPlatformFailures (uploadFiles env (root @ js ''/certs.zip'') deviceId)
                   (js ''www-certs-exchange-uploading-certs'')))
        (\<lambda>_. io_return deviceId))"
  unfolding shape_def
proof (intro allI impI)
  fix s res s'
  assume "io_bind
        (io_bind (reportPlatformFailures
                    (call (ZipDirectory (root @ js ''/FlipperCerts/'') (root @ js ''/certs.zip''))
                       (zip_directory env (root @ js ''/FlipperCerts/'') (root @ js ''/certs.zip'')))
                    (js ''www-certs-exchange-zipping-certs''))
           (\<lambda>_. reportPlatformFailures (uploadFiles env (root @ js ''/certs.zip'') deviceId)
                   (js ''www-certs-exchange-uploading-certs'')))
        (\<lambda>_. io_return deviceId) s = (res, s')"
  from upload_run [OF this]
  have "\<exists>up. trace s' = trace s @ up \<and> upload_outcome env root res up s'"
    unfolding upload_outcome_def by (elim disjE exE conjE) (simp, simp, blast)
  then obtain up where "trace s' = trace s @ [] @ up" "upload_outcome env root res up s'" by auto
  then show "\<exists>pre up. trace s' = trace s @ pre @ up \<and> list_all quiet pre
       \<and> ((up = [] \<and> isl res) \<or> upload_outcome env root res up s')"
    by (intro exI [of _ "[]"] exI [of _ up]) simp
qed

lemma shape_weaken:
  assumes "shape U' m" and "\<And>res pre up s'. U' res pre up s' \<Longrightarrow> U res pre up s'"
  shows "shape U m"
  using assms unfolding shape_def by blast

lemma shape_throw:
  "shape (U :: error + 'a \<Rightarrow> event list \<Rightarrow> event list \<Rightarrow> 'w state \<Rightarrow> bool) (io_throw e)"
  unfolding shape_def
proof (intro allI impI)
  fix s :: "'w state" and res :: "error + 'a" and s'
  assume "io_throw e s = (res, s')"
  then have "res = Inl e" "s' = s" by (simp_all add: io_throw_def)
  then show "\<exists>pre up. trace s' = trace s @ pre @ up \<and> list_all quiet pre
      \<and> ((up = [] \<and> isl res) \<or> U res pre up s')"
    by (intro exI [of _ "[]"] exI [of _ "[]"]) simp
qed

text \<open>
  C7. With the medium \<^verbatim>\<open>WWW\<close> the events of an exchange are quiet ones (no device, no
  packaging, no upload) followed by those of the last step. Either the exchange fails
  before the last step, or both certificates were staged before it and the last step
  ends in one of the ways of \<open>upload_outcome\<close>: the upload is called with a timeout of
  five minutes after the archive was written and read; when it fails the exchange fails
  with the rejection of the upload, and nothing follows the upload but the two reports
  of the failure: no file is removed, no device is called, and the world is the one the
  upload left.
\<close>

theorem upload_after_staging_no_rollback:
  assumes "processCertificateSigningRequest env this raw os dir WWW s = (res, s')"
  shows "\<exists>pre up. trace s' = trace s @ pre @ up \<and> list_all quiet pre
     \<and> ((up = [] \<and> isl res) \<or> (\<exists>root. staged root pre \<and> upload_outcome env root res up s'))"
proof -
  let ?csr = "santitizeString raw"
  let ?cf = "\<lambda>root. root @ js ''/FlipperCerts/''"
  let ?wca = "\<lambda>root ca.
      Call (FsWriteFile (root @ js ''/FlipperCerts/'' @ deviceCAcertFile) ca) True"
  let ?wcert = "\<lambda>root cert.
      Call (FsWriteFile (root @ js ''/FlipperCerts/'' @ deviceClientCertFile) cert) True"
  let ?up = "\<lambda>root deviceId. io_bind
        (io_bind (reportPlatformFailures
                    (call (ZipDirectory (?cf root) (root @ js ''/certs.zip''))
                       (zip_directory env (?cf root) (root @ js ''/certs.zip'')))
                    (js ''www-certs-exchange-zipping-certs''))
           (\<lambda>_. reportPlatformFailures (uploadFiles env (root @ js ''/certs.zip'') deviceId)
                   (js ''www-certs-exchange-uploading-certs'')))
        (\<lambda>_. io_return deviceId)"
  let ?kc = "\<lambda>root. io_bind (extractAppNameFromCSR env ?csr) (\<lambda>appName.
      io_bind (call_total Uuid (uuid env)) (\<lambda>deviceId. ?up root deviceId))"
  let ?kb = "\<lambda>root. io_bind (generateClientCertificate env ?csr) (\<lambda>clientCert.
      io_bind (deployOrStageFileForMobileApp env this dir deviceClientCertFile clientCert ?csr os
                 WWW (?cf root)) (\<lambda>_. ?kc root))"
  let ?ka = "\<lambda>root. io_bind (io_await (certificateSetup this)) (\<lambda>_.
      io_bind (getCACertificate env) (\<lambda>caCert.
      io_bind (deployOrStageFileForMobileApp env this dir deviceCAcertFile caCert ?csr os
                 WWW (?cf root)) (\<lambda>_. ?kb root)))"
  let ?Uc = "\<lambda>root res (pre :: event list) up s'. upload_outcome env root res up s'"
  let ?Ub = "\<lambda>root res pre up s'. (\<exists>cert. ?wcert root cert \<in> set pre) \<and> upload_outcome env root res up s'"
  let ?Ua = "\<lambda>root res pre up s'. staged root pre \<and> upload_outcome env root res up s'"
  let ?Utop = "\<lambda>res pre up s'. \<exists>root. staged root pre \<and> upload_outcome env root res up s'"
  have s2: "shape (?Uc root) (?kc root)" for root
    by (intro shape_plain quiet_extract adds_call_total upload_shape) simp_all
  have s1: "shape (?Ub root) (?kb root)" for root
  proof (rule shape_plain [OF quiet_generateClient])
    fix clientCert
    show "shape (?Ub root)
       (io_bind (deployOrStageFileForMobileApp env this dir deviceClientCertFile clientCert ?csr os
                 WWW (?cf root)) (\<lambda>_. ?kc root))"
      by (rule shape_step [OF quiet_stage, where G = "\<lambda>_ evs. ?wcert root clientCert \<in> set evs"
            and U' = "\<lambda>_. ?Uc root"])
        (auto dest: stage_written intro: s2)
  qed auto
  have s0: "shape (?Ua root) (?ka root)" for root
  proof (intro shape_plain [OF adds_await] shape_plain [OF quiet_getCA])
    fix u :: unit and caCert
    show "shape (?Ua root)
       (io_bind (deployOrStageFileForMobileApp env this dir deviceCAcertFile caCert ?csr os
                 WWW (?cf root)) (\<lambda>_. ?kb root))"
      by (rule shape_step [OF quiet_stage, where G = "\<lambda>_ evs. ?wca root caCert \<in> set evs"
            and U' = "\<lambda>_. ?Ub root"])
        (auto dest: stage_written intro: s1 simp: staged_def)
  qed (auto simp: staged_def)
  have s: "shape ?Utop (io_bind (ensureOpenSSLIsAvailable env) (\<lambda>_.
      io_bind (call TmpDir (tmp_dir env)) (\<lambda>rootFolder. ?ka rootFolder)))"
  proof (intro shape_plain [OF quiet_ensureOpenSSL] shape_plain [OF adds_call])
    fix rootFolder
    show "shape ?Utop (?ka rootFolder)"
      by (rule shape_weaken [OF s0]) blast
  qed (auto simp: staged_def)
  have "shape ?Utop (processCertificateSigningRequest env this raw os dir WWW)"
  proof (cases "?csr = []")
    case True
    then have "processCertificateSigningRequest env this raw os dir WWW = io_throw (EmptyCsr os)"
      by (simp add: processCertificateSigningRequest_def)
    then show ?thesis by (simp add: shape_throw)
  next
    case False
    then have "processCertificateSigningRequest env this raw os dir WWW
        = io_bind (ensureOpenSSLIsAvailable env) (\<lambda>_.
            io_bind (call TmpDir (tmp_dir env)) (\<lambda>rootFolder. ?ka rootFolder))"
      by (simp add: processCertificateSigningRequest_def Let_def)
    with s show ?thesis by simp
  qed
  with assms show ?thesis unfolding shape_def by blast
qed

theorem upload_after_staging_no_rollback_witness:
  "processCertificateSigningRequest
     (demo_env (js ''subject=CN=app'') (Inr []) (Inr []) (Inr []) []
        (Inl (External (js ''Timed out uploading Flipper certificates to WWW.''))))
     demo_provider demo_csr (js ''Android'') (js ''/data/'') WWW start
   = (Inl (External (js ''Timed out uploading Flipper certificates to WWW.'')),
      \<lparr>trace =
         [Call OpensslInstalled True,
          Call TmpDir True,
          Call (FsReadFile (js ''/home/u/.flipper/certs/ca.crt'')) True,
          Call (FsPathExists (js ''/tmp/d/FlipperCerts/'')) True,
          Call (FsWriteFile (js ''/tmp/d/FlipperCerts/sonarCA.crt'') demo_csr) True,
          Console Debug [Text (js ''Creating new client cert''), Text (js ''CertificateProvider'')],
          Call TmpFile True,
          Call (FsWriteFile (js ''/tmp/f'') demo_csr) True,
          Call (Openssl (X509_sign (js ''/tmp/f'') (js ''/home/u/.flipper/certs/ca.crt'')
                  (js ''/home/u/.flipper/certs/ca.key'') (js ''/home/u/.flipper/certs/server.srl'')))
            True,
          Call (FsPathExists (js ''/tmp/d/FlipperCerts/'')) True,
          Call (FsWriteFile (js ''/tmp/d/FlipperCerts/device.crt'')
                  (js ''-----BEGIN CERTIFICATE-----'')) True,
          Call TmpFile True,
          Call (FsWriteFile (js ''/tmp/f'') demo_csr) True,
          Call (Openssl (Req_subject (js ''/tmp/f''))) True,
          Call (FsUnlink (js ''/tmp/f'')) True,
          Call Uuid True,
          Call (ZipDirectory (js ''/tmp/d/FlipperCerts/'') (js ''/tmp/d/certs.zip'')) True,
          Call (ReportPlatform (js ''www-certs-exchange-zipping-certs'')) True,
          Call (FsReadFile (js ''/tmp/d/certs.zip'')) True,
          Call (GraphPost 300000 (js ''flipper/certificates'') (js ''PK'')
                  (js ''0f8fad5b-d9cb-469f-a165-70867728950e'')) False,
          Call (ReportPlatform (js ''uploadCertificates'')) False,
          Call (ReportPlatform (js ''www-certs-exchange-uploading-certs'')) False],
       ext = ()\<rparr>)
   \<and> (\<exists>pre up.
         trace (snd (processCertificateSigningRequest
            (demo_env (js ''subject=CN=app'') (Inr []) (Inr []) (Inr []) []
               (Inl (External (js ''Timed out uploading Flipper certificates to WWW.''))))
            demo_provider demo_csr (js ''Android'') (js ''/data/'') WWW start))
           = trace start @ pre @ up
         \<and> list_all quiet pre
         \<and> (\<exists>root. staged root pre
               \<and> upload_outcome
                    (demo_env (js ''subject=CN=app'') (Inr []) (Inr []) (Inr []) []
                       (Inl (External (js ''Timed out uploading Flipper certificates to WWW.''))))
                    root (Inl (External (js ''Timed out uploading Flipper certificates to WWW.'')))
                    up
                    (snd (processCertificateSigningRequest
                       (demo_env (js ''subject=CN=app'') (Inr []) (Inr []) (Inr []) []
                          (Inl (External (js ''Timed out uploading Flipper certificates to WWW.''))))
                       demo_provider demo_csr (js ''Android'') (js ''/data/'') WWW start))))"
proof -
  let ?E = "demo_env (js ''subject=CN=app'') (Inr []) (Inr []) (Inr []) []
        (Inl (External (js ''Timed out uploading Flipper certificates to WWW.'')))"
  let ?run = "processCertificateSigningRequest ?E demo_provider demo_csr (js ''Android'')
      (js ''/data/'') WWW start"
  let ?e = "External (js ''Timed out uploading Flipper certificates to WWW.'')"
  have ev: "?run = (Inl ?e,
      \<lparr>trace =
         [Call OpensslInstalled True,
          Call TmpDir True,
          Call (FsReadFile (js ''/home/u/.flipper/certs/ca.crt'')) True,
          Call (FsPathExists (js ''/tmp/d/FlipperCerts/'')) True,
          Call (FsWriteFile (js ''/tmp/d/FlipperCerts/sonarCA.crt'') demo_csr) True,
          Console Debug [Text (js ''Creating new client cert''), Text (js ''CertificateProvider'')],
          Call TmpFile True,
          Call (FsWriteFile (js ''/tmp/f'') demo_csr) True,
          Call (Openssl (X509_sign (js ''/tmp/f'') (js ''/home/u/.flipper/certs/ca.crt'')
                  (js ''/home/u/.flipper/certs/ca.key'') (js ''/home/u/.flipper/certs/server.srl'')))
            True,
          Call (FsPathExists (js ''/tmp/d/FlipperCerts/'')) True,
          Call (FsWriteFile (js ''/tmp/d/FlipperCerts/device.crt'')
                  (js ''-----BEGIN CERTIFICATE-----'')) True,
          Call TmpFile True,
          Call (FsWriteFile (js ''/tmp/f'') demo_csr) True,
          Call (Openssl (Req_subject (js ''/tmp/f''))) True,
          Call (FsUnlink (js ''/tmp/f'')) True,
          Call Uuid True,
          Call (ZipDirectory (js ''/tmp/d/FlipperCerts/'') (js ''/tmp/d/certs.zip'')) True,
          Call (ReportPlatform (js ''www-certs-exchange-zipping-certs'')) True,
          Call (FsReadFile (js ''/tmp/d/certs.zip'')) True,
          Call (GraphPost 300000 (js ''flipper/certificates'') (js ''PK'')
                  (js ''0f8fad5b-d9cb-469f-a165-70867728950e'')) False,
          Call (ReportPlatform (js ''uploadCertificates'')) False,
          Call (ReportPlatform (js ''www-certs-exchange-uploading-certs'')) False],
       ext = ()\<rparr>)"
    by (simp add: run_defs demo_env_sel demo_openssl_def demo_provider_def start_def io_defs
        str_defs caCert_def caKey_def serverSrl_def deviceCAcertFile_def deviceClientCertFile_def
        demo_csr_def)
  then have r: "?run = (Inl ?e, snd ?run)" by simp
  from upload_after_staging_no_rollback [OF r]
  obtain pre up where p: "trace (snd ?run) = trace start @ pre @ up" "list_all quiet pre"
    "(up = [] \<and> isl (Inl ?e :: error + jsstring))
      \<or> (\<exists>root. staged root pre \<and> upload_outcome ?E root (Inl ?e) up (snd ?run))"
    by blast
  have "up \<noteq> []"
  proof
    assume "up = []"
    with p(1,2) have "list_all quiet (trace (snd ?run))" by (simp add: start_def)
    then show False by (simp add: ev quiet_def)
  qed
  with p have "\<exists>pre up. trace (snd ?run) = trace start @ pre @ up \<and> list_all quiet pre
      \<and> (\<exists>root. staged root pre \<and> upload_outcome ?E root (Inl ?e) up (snd ?run))"
    by blast
  with ev show ?thesis by blast
qed

section \<open>Which device sent the request\<close>

text \<open>
  On the Android path every check ends in a record of its own: the device id with the
  comparison of the sanitized strings, or the device id with the error of the pull. No
  check rejects, so the decision sees all of them.
\<close>

lemma adb_resolves:
  "enableAndroid (config this) \<Longrightarrow> adb_slot this = Some client \<Longrightarrow> adb this s = (Inr client, s)"
  by (simp add: adb_def io_return_def)

lemma android_check_outcome:
  assumes "enableAndroid (config this)" "adb_slot this = Some client"
  shows "android_check env this app dir csr device s =
     (case androidUtil_pull env client device app (dir @ csrFileName) (ext s) of
        (Inr content, w) \<Rightarrow>
          (Inr \<lparr>dev_id = device, isMatch = (santitizeString content = santitizeString csr),
                foundCsr = Some (santitizeString content), dev_error = None\<rparr>,
           s\<lparr>ext := w,
             trace := trace s @ [Call (AndroidPull device app (dir @ csrFileName)) True]\<rparr>)
      | (Inl e, w) \<Rightarrow>
          (Inr \<lparr>dev_id = device, isMatch = False, foundCsr = None, dev_error = Some e\<rparr>,
           s\<lparr>ext := w,
             trace := trace s @
               [Call (AndroidPull device app (dir @ csrFileName)) False,
                Console Warn
                  [Text (js ''Unable to check for matching CSR in '' @ device @ js '':'' @ app),
                   Text (js ''CertificateProvider''), Thrown e]]\<rparr>))"
  using assms
  by (simp add: android_check_def androidDeviceHasMatchingCSR_def adb_def io_defs Let_def
      split: prod.splits sum.splits)

lemma android_check_never_rejects:
  "\<exists>d. fst (android_check env this app dir csr device s) = Inr d \<and> dev_id d = device"
  by (auto simp: android_check_def io_catch_def io_bind_def io_return_def console_def
      split: prod.splits sum.splits)

lemma run_all_android_checks:
  "run_all (map (android_check env this app dir csr) ids) s = (rs, s') \<Longrightarrow>
   \<exists>ds. rs = map Inr ds \<and> map dev_id ds = ids"
proof (induction ids arbitrary: s rs s')
  case Nil
  then show ?case by simp
next
  case (Cons device ids)
  obtain r s1 where c: "android_check env this app dir csr device s = (r, s1)"
    by (cases "android_check env this app dir csr device s")
  obtain rs1 s2 where t: "run_all (map (android_check env this app dir csr) ids) s1 = (rs1, s2)"
    by (cases "run_all (map (android_check env this app dir csr) ids) s1")
  from android_check_never_rejects [of env this app dir csr device s] c
  obtain d where d: "r = Inr d" "dev_id d = device" by auto
  from Cons.IH [OF t] obtain ds where "rs1 = map Inr ds" "map dev_id ds = ids" by auto
  with Cons.prems c t d show ?case
    by (intro exI [of _ "d # ds"]) simp
qed

lemma all_resolved [simp]: "rejections (map Inr ds) = []" "resolutions (map Inr ds) = ds"
  by (induction ds) simp_all

lemma io_map_found_csr_text:
  "\<forall>c \<in> set xs. \<forall>t. c = Some t \<longrightarrow> well_formed_utf16 t \<Longrightarrow>
   \<exists>ys. io_map found_csr_text xs s = (Inr ys, s)"
proof (induction xs)
  case Nil
  then show ?case by (simp add: io_return_def)
next
  case (Cons x xs)
  then obtain ys where "io_map found_csr_text xs s = (Inr ys, s)" by auto
  moreover from Cons.prems have "\<exists>y. found_csr_text x s = (Inr y, s)"
    by (cases x) (auto simp: found_csr_text_def encodeURI_def io_return_def)
  ultimately show ?case by (auto simp: io_bind_def io_return_def)
qed

text \<open>
  The decision of the Android path: no device, no Android devices found; one match, its
  id; several matches, the warning and the id of the first; no match, the error of the
  first device that has one, and without any error no matching device (the strings that
  are logged being well-formed UTF-16).
\<close>

lemma getTargetAndroidDeviceId_policy:
  assumes "enableAndroid (config this)" "adb_slot this = Some client"
    and "listDevices env client (ext s) = (Inr ids, w1)"
    and "run_all (map (android_check env this app dir csr) ids)
           (s\<lparr>ext := w1, trace := trace s @ [Call ListDevices True]\<rparr>) = (map Inr ds, s2)"
  shows "(ids = [] \<longrightarrow> fst (getTargetAndroidDeviceId env this app dir csr s) = Inl NoAndroidDevices)
     \<and> (ids \<noteq> [] \<and> filter isMatch ds = [d] \<longrightarrow>
          getTargetAndroidDeviceId env this app dir csr s = (Inr (dev_id d), s2))
     \<and> (ids \<noteq> [] \<and> filter isMatch ds = d # d' # rest \<longrightarrow>
          getTargetAndroidDeviceId env this app dir csr s
            = (Inr (dev_id d), emit (more_than_one_warning csr) s2))
     \<and> (ids \<noteq> [] \<and> filter isMatch ds = []
          \<and> List.find (\<lambda>d. dev_error d \<noteq> None) ds = Some d \<and> dev_error d = Some e \<longrightarrow>
          getTargetAndroidDeviceId env this app dir csr s = (Inl e, s2))
     \<and> (ids \<noteq> [] \<and> filter isMatch ds = []
          \<and> List.find (\<lambda>d. dev_error d \<noteq> None) ds = None
          \<and> well_formed_utf16 (santitizeString csr)
          \<and> (\<forall>d \<in> set ds. \<forall>t. foundCsr d = Some t \<longrightarrow> well_formed_utf16 t) \<longrightarrow>
          fst (getTargetAndroidDeviceId env this app dir csr s) = Inl (NoMatchingDevice app))"
proof -
  have head: "getTargetAndroidDeviceId env this app dir csr s =
     (if ids = [] then (Inl NoAndroidDevices, s\<lparr>ext := w1, trace := trace s @ [Call ListDevices True]\<rparr>)
      else (let matchingIds = map dev_id (filter isMatch ds) in
        if length matchingIds = 0 then
          (case List.find (\<lambda>d. dev_error d \<noteq> None) ds of
             Some erroredDevice \<Rightarrow>
               (case dev_error erroredDevice of
                  Some e \<Rightarrow> io_throw e
                | None \<Rightarrow> io_throw (NoMatchingDevice app))
           | None \<Rightarrow>
               io_bind (io_map found_csr_text
                          (map foundCsr (filter (\<lambda>d. foundCsr d \<noteq> None) ds)))
                 (\<lambda>foundCsrs.
               io_bind (encodeURI (santitizeString csr)) (\<lambda>wanted.
               io_bind (console Warn (Text (js ''Looking for CSR (url encoded):'') # Text wanted
                                        # Text (js ''Found these:'') # map Text foundCsrs))
                 (\<lambda>_. io_throw (NoMatchingDevice app)))))
        else
          io_bind (if length matchingIds > 1
                   then console Warn
                          [Thrown (External (js ''[conn] More than one matching device found for CSR'')),
                           Text csr]
                   else io_return ())
            (\<lambda>_. io_return (hd matchingIds))) s2)"
    using assms
    by (simp add: getTargetAndroidDeviceId_def adb_def promise_all_def
        io_bind_def io_return_def io_throw_def call_def emit_def)
  show ?thesis
  proof (intro conjI impI)
    assume "ids = []"
    then show "fst (getTargetAndroidDeviceId env this app dir csr s) = Inl NoAndroidDevices"
      by (simp add: head)
  next
    assume "ids \<noteq> [] \<and> filter isMatch ds = [d]"
    then show "getTargetAndroidDeviceId env this app dir csr s = (Inr (dev_id d), s2)"
      by (simp add: head io_bind_def io_return_def)
  next
    assume "ids \<noteq> [] \<and> filter isMatch ds = d # d' # rest"
    then show "getTargetAndroidDeviceId env this app dir csr s
            = (Inr (dev_id d), emit (more_than_one_warning csr) s2)"
      by (simp add: head io_bind_def io_return_def console_def more_than_one_warning_def)
  next
    assume "ids \<noteq> [] \<and> filter isMatch ds = []
          \<and> List.find (\<lambda>d. dev_error d \<noteq> None) ds = Some d \<and> dev_error d = Some e"
    then show "getTargetAndroidDeviceId env this app dir csr s = (Inl e, s2)"
      by (simp add: head io_throw_def)
  next
    assume a: "ids \<noteq> [] \<and> filter isMatch ds = []
          \<and> List.find (\<lambda>d. dev_error d \<noteq> None) ds = None
          \<and> well_formed_utf16 (santitizeString csr)
          \<and> (\<forall>d \<in> set ds. \<forall>t. foundCsr d = Some t \<longrightarrow> well_formed_utf16 t)"
    then have "\<forall>c \<in> set (map foundCsr (filter (\<lambda>d. foundCsr d \<noteq> None) ds)).
        \<forall>t. c = Some t \<longrightarrow> well_formed_utf16 t"
      by auto
    from io_map_found_csr_text [OF this, of s2] obtain ys where
      "io_map found_csr_text (map foundCsr (filter (\<lambda>d. foundCsr d \<noteq> None) ds)) s2 = (Inr ys, s2)"
      by auto
    with a show "fst (getTargetAndroidDeviceId env this app dir csr s) = Inl (NoMatchingDevice app)"
      by (simp add: head encodeURI_def io_bind_def io_return_def io_throw_def console_def)
  qed
qed

text \<open>
  On the iOS path a check that rejects is not caught: as soon as one check rejects, the
  whole resolution fails with one of the rejections, whatever the other devices
  answered; with one rejection it fails with that one.
\<close>

lemma getTargetiOSDeviceId_rejection:
  assumes "exec_first simulatorId_at dir = None"
    and "iosUtil_targets env (idbPath (config this)) (enablePhysicalIOS (config this)) (ext s)
           = (Inr ids, w1)"
    and "ids \<noteq> []"
    and "run_all (map (ios_check env this app dir csr) ids)
           (s\<lparr>ext := w1,
              trace := trace s @ [Call (IosTargets (idbPath (config this))
                                          (enablePhysicalIOS (config this))) True]\<rparr>) = (rs, s2)"
    and "rejections rs = e # es"
  shows "getTargetiOSDeviceId env this app dir csr s
     = (Inl ((e # es) ! (settled_first env (e # es) mod length (e # es))), s2)"
    and "es = [] \<Longrightarrow> getTargetiOSDeviceId env this app dir csr s = (Inl e, s2)"
  using assms
  by (simp_all add: getTargetiOSDeviceId_def promise_all_def io_bind_def call_def emit_def)

text \<open>
  C5 (the code departs from it). Two devices, \<^verbatim>\<open>A\<close> whose pull fails and \<^verbatim>\<open>B\<close> whose copy
  of the request matches. The checks of the iOS path end with the rejection for \<^verbatim>\<open>A\<close>
  and the match for \<^verbatim>\<open>B\<close>, and \<^verbatim>\<open>getTargetiOSDeviceId\<close> fails with the error of \<^verbatim>\<open>A\<close>:
  the match of \<^verbatim>\<open>B\<close> is lost. \<^verbatim>\<open>getTargetAndroidDeviceId\<close> returns \<^verbatim>\<open>B\<close> for the same
  devices.
\<close>

theorem ios_rejection_hides_match:
  "fst (run_all
          (map (ios_check
                  (demo_env [] (Inr []) (Inr []) (Inr [])
                     [(js ''A'', Inl (External (js ''pull failed''))), (js ''B'', Inr demo_csr)]
                     (Inr ()))
                  demo_provider (js ''app'') (js ''/Application/AB/sonar/'') demo_csr)
             [js ''A'', js ''B''])
          start)
     = [Inl (External (js ''pull failed'')), Inr (js ''B'', True)]
   \<and> fst (getTargetiOSDeviceId
            (demo_env [] (Inr []) (Inr []) (Inr [])
               [(js ''A'', Inl (External (js ''pull failed''))), (js ''B'', Inr demo_csr)]
               (Inr ()))
            demo_provider (js ''app'') (js ''/Application/AB/sonar/'') demo_csr start)
     = Inl (External (js ''pull failed''))
   \<and> fst (getTargetAndroidDeviceId
            (demo_env [] (Inr []) (Inr []) (Inr [])
               [(js ''A'', Inl (External (js ''pull failed''))), (js ''B'', Inr demo_csr)]
               (Inr ()))
            demo_provider (js ''app'') (js ''/Application/AB/sonar/'') demo_csr start)
     = Inr (js ''B'')"
  by (simp add: device_defs demo_defs io_defs str_defs)

text \<open>
  C4 (the code departs from it). Exactly one device, \<^verbatim>\<open>B\<close>, has a copy of the request
  that matches, and it is the first of the pool; the pull of the other one fails.
  \<^verbatim>\<open>getTargetiOSDeviceId\<close> does not return \<^verbatim>\<open>B\<close>, it fails with the error of the pull;
  \<^verbatim>\<open>getTargetAndroidDeviceId\<close> returns \<^verbatim>\<open>B\<close>.
\<close>

theorem ios_single_match_not_returned:
  "fst (getTargetiOSDeviceId
            (demo_env [] (Inr []) (Inr []) (Inr [])
               [(js ''B'', Inr demo_csr), (js ''A'', Inl (External (js ''pull failed'')))]
               (Inr ()))
            demo_provider (js ''app'') (js ''/Application/AB/sonar/'') demo_csr start)
     = Inl (External (js ''pull failed''))
   \<and> fst (getTargetAndroidDeviceId
            (demo_env [] (Inr []) (Inr []) (Inr [])
               [(js ''B'', Inr demo_csr), (js ''A'', Inl (External (js ''pull failed'')))]
               (Inr ()))
            demo_provider (js ''app'') (js ''/Application/AB/sonar/'') demo_csr start)
     = Inr (js ''B'')"
  by (simp add: device_defs demo_defs io_defs str_defs)

end
